theory Spec2Isabelle
  imports Complex_Main "HOL-Library.Char_ord" "HOL-Library.List_Lexorder"
begin

section \<open>Python values used by the program\<close>

text \<open>
  A Python \<open>str\<close> is modelled as a \<open>string\<close>: one character of the model is one code
  point below 256. All texts the program compares against (\<open>.gguf\<close>, the answer tokens,
  the catalog keys and paths) are ASCII.

  A Python \<open>float\<close> is a finite value, an infinity or NaN. A finite value is kept as
  the real number it denotes; rounding never enters, because the program only parses,
  stores and compares floats.
\<close>

datatype pyfloat = Finite real | PosInf | NegInf | NaN

text \<open>Python's \<open>a <= b\<close> on floats: every comparison with NaN is false.\<close>

fun fle :: "pyfloat \<Rightarrow> pyfloat \<Rightarrow> bool" where
  "fle NaN b = False"
| "fle a NaN = False"
| "fle NegInf b = True"
| "fle a PosInf = True"
| "fle (Finite x) (Finite y) = (x \<le> y)"
| "fle PosInf b = False"
| "fle (Finite x) NegInf = False"

text \<open>\<open>s.endswith(suffix)\<close>.\<close>

definition endswith :: "string \<Rightarrow> string \<Rightarrow> bool" where
  "endswith s suffix =
     (length suffix \<le> length s \<and> drop (length s - length suffix) s = suffix)"

section \<open>llm/llama\_validation.py\<close>

text \<open>
  \<open>LlamaConfig\<close> is a pydantic model. Construction takes keyword arguments, each of
  which may be absent; the model takes them already of the declared type (pydantic's
  coercion of other types is outside the repository). A field without a default is
  required; a default is used as it is, without validation. Each field is checked on
  its own, in declaration order, stopping at that field's first failing check, and the
  failures of all fields are raised together as one \<open>ValidationError\<close>. The file
  system enters through \<open>os.path.exists\<close>, the parameter \<open>exists\<close>.
\<close>

record LlamaConfig =
  engine :: string
  model_name :: string
  llama_model_path :: string
  llama_gpu_layers :: int
  llama_context_size :: int
  llama_temperature :: pyfloat
  llama_top_p :: pyfloat
  llama_top_k :: int

record LlamaConfig_kwargs =
  kw_engine :: "string option"
  kw_model_name :: "string option"
  kw_llama_model_path :: "string option"
  kw_llama_gpu_layers :: "int option"
  kw_llama_context_size :: "int option"
  kw_llama_temperature :: "pyfloat option"
  kw_llama_top_p :: "pyfloat option"
  kw_llama_top_k :: "int option"

datatype field =
    F_engine | F_model_name | F_llama_model_path | F_llama_gpu_layers
  | F_llama_context_size | F_llama_temperature | F_llama_top_p | F_llama_top_k

datatype validation_error =
    Field_required field
  | Literal_mismatch field
  | Not_ge field
  | Not_le field
  | Model_file_missing string
    \<comment> \<open>\<open>ValueError("Plik modelu nie istnieje: {v}")\<close>\<close>
  | Model_file_extension
    \<comment> \<open>\<open>ValueError("Plik modelu musi miec rozszerzenie .gguf")\<close>\<close>

definition validate_model_path :: "(string \<Rightarrow> bool) \<Rightarrow> string \<Rightarrow> validation_error + string" where
  "validate_model_path exists v =
     (if \<not> exists v then Inl (Model_file_missing v)
      else if \<not> endswith v ''.gguf'' then Inl Model_file_extension
      else Inr v)"

text \<open>
  The constraints \<open>ge\<close> and \<open>le\<close> of \<open>Field\<close>. On a number they are the
  comparisons \<open>v >= ge\<close> and \<open>v <= le\<close>; with the bounds of this model no number
  fails both, so their order does not show. What they make of NaN depends on the
  version of pydantic, which the sources do not fix: NaN is refused by the \<open>ge\<close>
  test, refused by the \<open>le\<close> test, or accepted. This is the parameter
  \<open>nan_policy\<close>.
\<close>

datatype nan_policy = NaN_fails_ge | NaN_fails_le | NaN_accepted

definition int_ge :: "field \<Rightarrow> int \<Rightarrow> int \<Rightarrow> validation_error + int" where
  "int_ge f lo v = (if v \<ge> lo then Inr v else Inl (Not_ge f))"

definition float_ge_le ::
  "nan_policy \<Rightarrow> field \<Rightarrow> pyfloat \<Rightarrow> pyfloat \<Rightarrow> pyfloat \<Rightarrow> validation_error + pyfloat" where
  "float_ge_le policy f lo hi v =
     (if v = NaN then
        (case policy of
           NaN_fails_ge \<Rightarrow> Inl (Not_ge f)
         | NaN_fails_le \<Rightarrow> Inl (Not_le f)
         | NaN_accepted \<Rightarrow> Inr v)
      else if \<not> fle lo v then Inl (Not_ge f)
      else if \<not> fle v hi then Inl (Not_le f)
      else Inr v)"

definition literal :: "field \<Rightarrow> string \<Rightarrow> string \<Rightarrow> validation_error + string" where
  "literal f expected v = (if v = expected then Inr v else Inl (Literal_mismatch f))"

text \<open>\<open>Field(...)\<close> is a required field, \<open>Field(default=d)\<close> an optional one.\<close>

definition required :: "field \<Rightarrow> ('a \<Rightarrow> validation_error + 'a) \<Rightarrow> 'a option \<Rightarrow> validation_error + 'a" where
  "required f check arg = (case arg of None \<Rightarrow> Inl (Field_required f) | Some v \<Rightarrow> check v)"

definition with_default :: "'a \<Rightarrow> ('a \<Rightarrow> validation_error + 'a) \<Rightarrow> 'a option \<Rightarrow> validation_error + 'a" where
  "with_default d check arg = (case arg of None \<Rightarrow> Inr d | Some v \<Rightarrow> check v)"

definition errors :: "validation_error + 'a \<Rightarrow> validation_error list" where
  "errors r = (case r of Inl e \<Rightarrow> [e] | Inr v \<Rightarrow> [])"

text \<open>
  Constructing the model: \<open>Inl\<close> is the raised \<open>ValidationError\<close> with the failures in
  field order, \<open>Inr\<close> the constructed object. The values are read with \<open>projr\<close> only
  when no field has failed.
\<close>

definition LlamaConfig_init ::
  "nan_policy \<Rightarrow> (string \<Rightarrow> bool) \<Rightarrow> LlamaConfig_kwargs
    \<Rightarrow> validation_error list + LlamaConfig" where
  "LlamaConfig_init policy exists kw =
     (let r_engine = with_default ''LLAMA'' (literal F_engine ''LLAMA'') (kw_engine kw);
          r_model_name = required F_model_name Inr (kw_model_name kw);
          r_llama_model_path =
            required F_llama_model_path (validate_model_path exists) (kw_llama_model_path kw);
          r_llama_gpu_layers =
            with_default 1 (int_ge F_llama_gpu_layers (- 1)) (kw_llama_gpu_layers kw);
          r_llama_context_size =
            with_default 2048 (int_ge F_llama_context_size 1) (kw_llama_context_size kw);
          r_llama_temperature =
            with_default (Finite 0.7) (float_ge_le policy F_llama_temperature (Finite 0) (Finite 2))
              (kw_llama_temperature kw);
          r_llama_top_p =
            with_default (Finite 0.9) (float_ge_le policy F_llama_top_p (Finite 0) (Finite 1))
              (kw_llama_top_p kw);
          r_llama_top_k = with_default 40 (int_ge F_llama_top_k 0) (kw_llama_top_k kw);
          errs = errors r_engine @ errors r_model_name @ errors r_llama_model_path
            @ errors r_llama_gpu_layers @ errors r_llama_context_size
            @ errors r_llama_temperature @ errors r_llama_top_p @ errors r_llama_top_k
      in if errs = [] then
           Inr \<lparr>engine = projr r_engine, model_name = projr r_model_name,
                llama_model_path = projr r_llama_model_path,
                llama_gpu_layers = projr r_llama_gpu_layers,
                llama_context_size = projr r_llama_context_size,
                llama_temperature = projr r_llama_temperature,
                llama_top_p = projr r_llama_top_p,
                llama_top_k = projr r_llama_top_k\<rparr>
         else Inl errs)"

section \<open>Strings and the console\<close>

text \<open>
  \<open>str.strip()\<close> removes leading and trailing whitespace. Below 256 the whitespace
  code points are 9 to 13, 28 to 32, 133 and 160.
\<close>

definition isspace :: "char \<Rightarrow> bool" where
  "isspace c =
     (let n = (of_char c :: nat)
      in (9 \<le> n \<and> n \<le> 13) \<or> (28 \<le> n \<and> n \<le> 32) \<or> n = 133 \<or> n = 160)"

definition strip :: "string \<Rightarrow> string" where
  "strip s = rev (dropWhile isspace (rev (dropWhile isspace s)))"

text \<open>
  \<open>str.lower()\<close>. Below 256 the upper-case code points are 65 to 90 (A to Z) and 192
  to 222 without 215; the lower-case partner of each is 32 above it, that is the same
  character with bit 5 set.
\<close>

definition isupper :: "char \<Rightarrow> bool" where
  "isupper c =
     (let n = (of_char c :: nat)
      in (65 \<le> n \<and> n \<le> 90) \<or> (192 \<le> n \<and> n \<le> 222 \<and> n \<noteq> 215))"

definition lower_char :: "char \<Rightarrow> char" where
  "lower_char c =
     (if isupper c
      then (case c of Char b0 b1 b2 b3 b4 b5 b6 b7 \<Rightarrow> Char b0 b1 b2 b3 b4 True b6 b7)
      else c)"

definition lower :: "string \<Rightarrow> string" where
  "lower s = map lower_char s"

text \<open>
  The texts written to the console, by the line of \<open>interactive_config.py\<close> that
  prints them. Most contain characters outside the model's strings (Polish letters,
  pictographs), so a text is named and carries only the values formatted into it.
  \<open>Rule n\<close> is \<open>"=" * n\<close>.
\<close>

datatype message =
    Answer_t_or_n                       \<comment> \<open>line 34\<close>
  | Value_between pyfloat pyfloat       \<comment> \<open>line 61\<close>
  | Not_a_number                        \<comment> \<open>line 63\<close>
  | Value_at_least int                  \<comment> \<open>line 89\<close>
  | Not_an_integer                      \<comment> \<open>line 91\<close>
  | Generation_header                   \<comment> \<open>line 108\<close>
  | Rule nat                            \<comment> \<open>lines 109, 204, 228\<close>
  | Using_default_params                \<comment> \<open>line 113\<close>
  | Explanation nat                     \<comment> \<open>the twelve lines 120 to 133, numbered from 0\<close>
  | Newline_rule nat                    \<comment> \<open>line 136\<close>
  | Chosen_header                       \<comment> \<open>line 158\<close>
  | Chosen_temperature pyfloat          \<comment> \<open>line 159\<close>
  | Chosen_top_p pyfloat                \<comment> \<open>line 160\<close>
  | Chosen_top_k int                    \<comment> \<open>line 161\<close>
  | Rule_newline nat                    \<comment> \<open>line 162\<close>
  | Model_header                        \<comment> \<open>line 203\<close>
  | No_models_found                     \<comment> \<open>line 213\<close>
  | Using_env_default                   \<comment> \<open>line 214\<close>
  | Available_header                    \<comment> \<open>line 218\<close>
  | Entry_name string string            \<comment> \<open>line 221\<close>
  | Entry_ram string                    \<comment> \<open>line 222\<close>
  | Entry_speed "nat \<times> string"         \<comment> \<open>line 223\<close>
  | Entry_quality "nat \<times> string"       \<comment> \<open>line 224\<close>
  | Empty_line                          \<comment> \<open>line 225\<close>
  | Option_zero                         \<comment> \<open>line 227\<close>
  | Using_env_model                     \<comment> \<open>line 235\<close>
  | Selected string                     \<comment> \<open>line 240\<close>
  | Model_missing string                \<comment> \<open>line 244\<close>
  | Download_first                      \<comment> \<open>line 245\<close>
  | Invalid_choice                      \<comment> \<open>line 247\<close>

text \<open>
  The prompt passed to \<open>input\<close>: the question with the default shown in brackets.
  The type \<open>'q\<close> of questions is left open; a question is only shown.
\<close>

datatype 'q prompt =
    Yes_no_prompt 'q string             \<comment> \<open>line 24\<close>
  | Float_prompt 'q pyfloat             \<comment> \<open>line 51\<close>
  | Int_prompt 'q int                   \<comment> \<open>line 79\<close>
  | Choice_prompt                       \<comment> \<open>line 232\<close>

datatype 'q event = Prompted "'q prompt" | Print_info message | Print_error message

text \<open>
  The console: the lines still to be read from standard input, and everything shown so
  far, oldest first. \<open>console.print_info\<close> and \<open>console.print_error\<close> are not
  part of the sources; they only show a text.
\<close>

record 'q console =
  stdin :: "string list"
  shown :: "'q event list"

datatype exn = EOFError | KeyError

datatype 'a outcome = Return 'a | Raise exn

definition print_info :: "message \<Rightarrow> 'q console \<Rightarrow> 'q console" where
  "print_info m c = c\<lparr>shown := shown c @ [Print_info m]\<rparr>"

definition print_error :: "message \<Rightarrow> 'q console \<Rightarrow> 'q console" where
  "print_error m c = c\<lparr>shown := shown c @ [Print_error m]\<rparr>"

text \<open>
  \<open>input(prompt)\<close> shows the prompt and returns the next line without its newline; at
  the end of standard input it raises \<open>EOFError\<close>.
\<close>

definition input_py :: "'q prompt \<Rightarrow> 'q console \<Rightarrow> string outcome \<times> 'q console" where
  "input_py p c =
     (let c' = c\<lparr>shown := shown c @ [Prompted p]\<rparr>
      in case stdin c of
           [] \<Rightarrow> (Raise EOFError, c')
         | line # rest \<Rightarrow> (Return line, c'\<lparr>stdin := rest\<rparr>))"

section \<open>cli/interactive\_config.py\<close>

text \<open>
  Each \<open>while True\<close> loop reads one line per round, so it is a recursion on the console
  that ends at the latest when standard input does. None of the functions catches
  \<open>EOFError\<close>; it leaves the function as \<open>Raise EOFError\<close>.
\<close>

text \<open>The parameter \<open>default\<close> of the three prompts is \<open>dflt\<close> here.\<close>

function ask_yes_no :: "'q \<Rightarrow> bool \<Rightarrow> 'q console \<Rightarrow> bool outcome \<times> 'q console" where
  "ask_yes_no question dflt c =
     (let default_str = (if dflt then ''T/n'' else ''t/N'')
      in case input_py (Yes_no_prompt question default_str) c of
           (Raise e, c1) \<Rightarrow> (Raise e, c1)
         | (Return line, c1) \<Rightarrow>
             (let answer = lower (strip line)
              in if answer = [] then (Return dflt, c1)
                 else if answer \<in> set [''t'', ''tak'', ''y'', ''yes''] then (Return True, c1)
                 else if answer \<in> set [''n'', ''nie'', ''no''] then (Return False, c1)
                 else ask_yes_no question dflt (print_error Answer_t_or_n c1)))"
  by pat_completeness auto
termination
  by (relation "measure (\<lambda>(question, dflt, c). length (stdin c))")
    (auto simp add: input_py_def print_error_def Let_def split: list.splits)

text \<open>
  \<open>float(answer)\<close> and \<open>int(answer)\<close> are Python built-ins: the parameters
  \<open>float_of\<close> and \<open>int_of\<close>, with \<open>None\<close> for a \<open>ValueError\<close>.
\<close>

function ask_float ::
  "(string \<Rightarrow> pyfloat option) \<Rightarrow> 'q \<Rightarrow> pyfloat \<Rightarrow> pyfloat \<Rightarrow> pyfloat \<Rightarrow> 'q console
    \<Rightarrow> pyfloat outcome \<times> 'q console" where
  "ask_float float_of question dflt min_val max_val c =
     (case input_py (Float_prompt question dflt) c of
        (Raise e, c1) \<Rightarrow> (Raise e, c1)
      | (Return line, c1) \<Rightarrow>
          (let answer = strip line
           in if answer = [] then (Return dflt, c1)
              else case float_of answer of
                     Some v \<Rightarrow>
                       if fle min_val v \<and> fle v max_val then (Return v, c1)
                       else ask_float float_of question dflt min_val max_val
                              (print_error (Value_between min_val max_val) c1)
                   | None \<Rightarrow>
                       ask_float float_of question dflt min_val max_val
                         (print_error Not_a_number c1)))"
  by pat_completeness auto
termination
  by (relation "measure (\<lambda>(float_of, question, dflt, min_val, max_val, c). length (stdin c))")
    (auto simp add: input_py_def print_error_def Let_def split: list.splits)

function ask_int ::
  "(string \<Rightarrow> int option) \<Rightarrow> 'q \<Rightarrow> int \<Rightarrow> int \<Rightarrow> 'q console \<Rightarrow> int outcome \<times> 'q console" where
  "ask_int int_of question dflt min_val c =
     (case input_py (Int_prompt question dflt) c of
        (Raise e, c1) \<Rightarrow> (Raise e, c1)
      | (Return line, c1) \<Rightarrow>
          (let answer = strip line
           in if answer = [] then (Return dflt, c1)
              else case int_of answer of
                     Some v \<Rightarrow>
                       if v \<ge> min_val then (Return v, c1)
                       else ask_int int_of question dflt min_val
                              (print_error (Value_at_least min_val) c1)
                   | None \<Rightarrow>
                       ask_int int_of question dflt min_val
                         (print_error Not_an_integer c1)))"
  by pat_completeness auto
termination
  by (relation "measure (\<lambda>(int_of, question, dflt, min_val, c). length (stdin c))")
    (auto simp add: input_py_def print_error_def Let_def split: list.splits)

text \<open>
  The questions asked by \<open>ask_for_generation_params\<close> (lines 112, 138, 145, 152) and
  the dictionary it returns, which always has the same three keys.
\<close>

datatype question = Q_configure | Q_temperature | Q_top_p | Q_top_k

record generation_params =
  temperature :: pyfloat
  top_p :: pyfloat
  top_k :: int

definition ask_for_generation_params ::
  "(string \<Rightarrow> pyfloat option) \<Rightarrow> (string \<Rightarrow> int option) \<Rightarrow> pyfloat \<Rightarrow> pyfloat \<Rightarrow> int
    \<Rightarrow> question console \<Rightarrow> generation_params outcome \<times> question console" where
  "ask_for_generation_params float_of int_of current_temp current_top_p current_top_k c =
     (let c1 = print_info (Rule 50) (print_info Generation_header c)
      in case ask_yes_no Q_configure False c1 of
           (Raise e, c2) \<Rightarrow> (Raise e, c2)
         | (Return configure, c2) \<Rightarrow>
             if \<not> configure then
               (Return \<lparr>temperature = current_temp, top_p = current_top_p, top_k = current_top_k\<rparr>,
                print_info Using_default_params c2)
             else
               (let c3 = print_info (Newline_rule 50)
                           (fold print_info (map Explanation [0..<12]) c2)
                in case ask_float float_of Q_temperature current_temp (Finite 0) (Finite 2) c3 of
                     (Raise e, c4) \<Rightarrow> (Raise e, c4)
                   | (Return temperature', c4) \<Rightarrow>
                       (case ask_float float_of Q_top_p current_top_p (Finite 0) (Finite 1) c4 of
                          (Raise e, c5) \<Rightarrow> (Raise e, c5)
                        | (Return top_p', c5) \<Rightarrow>
                            (case ask_int int_of Q_top_k current_top_k 0 c5 of
                               (Raise e, c6) \<Rightarrow> (Raise e, c6)
                             | (Return top_k', c6) \<Rightarrow>
                                 (Return \<lparr>temperature = temperature', top_p = top_p', top_k = top_k'\<rparr>,
                                  fold print_info
                                    [Chosen_header, Chosen_temperature temperature',
                                     Chosen_top_p top_p', Chosen_top_k top_k', Rule_newline 50]
                                    c6)))))"

text \<open>
  The model catalog of \<open>ask_for_model_choice\<close>, a dictionary with the keys \<open>1\<close>,
  \<open>2\<close>, \<open>3\<close> in this order. \<open>os.path.expanduser\<close> is the parameter
  \<open>expanduser\<close>. The file system can change while the function waits for input, so
  \<open>os.path.exists\<close> is two parameters: \<open>exists\<close> is the file system when the
  function is called, which lines 207 to 210 ask, and \<open>exists_at n\<close> is the file
  system in round \<open>n\<close> of the choice loop, which line 243 asks again after the
  choice has been read. The speed and quality labels start with a number of pictographs and
  continue in Polish: a label is kept as that number and the words in ASCII.
\<close>

record model_entry =
  entry_name :: string
  entry_path :: string
  entry_size :: string
  entry_speed :: "nat \<times> string"
  entry_quality :: "nat \<times> string"

definition models :: "(string \<Rightarrow> string) \<Rightarrow> (string \<times> model_entry) list" where
  "models expanduser =
     [(''1'', \<lparr>entry_name = ''Gemma 3 1B Q4_K_M'',
              entry_path = expanduser
                ''~/Library/Caches/llama.cpp/ggml-org_gemma-3-1b-it-GGUF_gemma-3-1b-it-Q4_K_M.gguf'',
              entry_size = ''~600MB RAM'',
              entry_speed = (3, ''Bardzo szybki''),
              entry_quality = (3, ''Dobra jakosc'')\<rparr>),
      (''2'', \<lparr>entry_name = ''Gemma 2 2B Q8_0'',
              entry_path = expanduser ''~/models/gemma-2-2b-it-Q8_0.gguf'',
              entry_size = ''~2.3GB RAM'',
              entry_speed = (2, ''Szybki''),
              entry_quality = (4, ''Bardzo dobra jakosc'')\<rparr>),
      (''3'', \<lparr>entry_name = ''Llama 3.1 8B Q4_K_M'',
              entry_path = expanduser ''~/models/Meta-Llama-3.1-8B-Instruct-Q4_K_M.gguf'',
              entry_size = ''~5GB RAM'',
              entry_speed = (1, ''Wolniejszy''),
              entry_quality = (5, ''Najlepsza jakosc'')\<rparr>)]"

text \<open>Lines 207 to 210: the entries whose file exists, in catalog order.\<close>

definition available_models ::
  "(string \<Rightarrow> bool) \<Rightarrow> (string \<times> model_entry) list \<Rightarrow> (string \<times> model_entry) list" where
  "available_models exists ms = filter (\<lambda>(key, model). exists (entry_path model)) ms"

text \<open>
  Lines 219 to 225: the available entries are shown in the order of their sorted keys.
  \<open>available_models[key]\<close> raises \<open>KeyError\<close> for a key that is absent.
\<close>

fun show_models ::
  "(string \<times> model_entry) list \<Rightarrow> string list \<Rightarrow> 'q console \<Rightarrow> unit outcome \<times> 'q console" where
  "show_models available [] c = (Return (), c)"
| "show_models available (key # keys) c =
     (case map_of available key of
        None \<Rightarrow> (Raise KeyError, c)
      | Some model \<Rightarrow>
          show_models available keys
            (fold print_info
               [Entry_name key (entry_name model), Entry_ram (entry_size model),
                Entry_speed (entry_speed model), Entry_quality (entry_quality model),
                Empty_line]
               c))"

text \<open>Lines 231 to 247: the loop that reads the choice; \<open>n\<close> counts its rounds.\<close>

function model_choice_loop ::
  "(nat \<Rightarrow> string \<Rightarrow> bool) \<Rightarrow> nat \<Rightarrow> (string \<times> model_entry) list
    \<Rightarrow> (string \<times> model_entry) list \<Rightarrow> 'q console
    \<Rightarrow> (string \<times> string) option outcome \<times> 'q console" where
  "model_choice_loop exists_at n ms available c =
     (case input_py Choice_prompt c of
        (Raise e, c1) \<Rightarrow> (Raise e, c1)
      | (Return line, c1) \<Rightarrow>
          (let choice = strip line
           in if choice = ''0'' then (Return None, print_info Using_env_model c1)
              else case map_of available choice of
                     Some selected \<Rightarrow>
                       (Return (Some (entry_path selected, entry_name selected)),
                        print_info (Selected (entry_name selected)) c1)
                   | None \<Rightarrow>
                       (case map_of ms choice of
                          Some model \<Rightarrow>
                            if \<not> exists_at n (entry_path model) then
                              model_choice_loop exists_at (Suc n) ms available
                                (print_error Download_first
                                   (print_error (Model_missing (entry_path model)) c1))
                            else
                              model_choice_loop exists_at (Suc n) ms available
                                (print_error Invalid_choice c1)
                        | None \<Rightarrow>
                            model_choice_loop exists_at (Suc n) ms available
                              (print_error Invalid_choice c1))))"
  by pat_completeness auto
termination
  by (relation "measure (\<lambda>(exists_at, n, ms, available, c). length (stdin c))")
    (auto simp add: input_py_def print_error_def Let_def split: list.splits)

definition ask_for_model_choice ::
  "(string \<Rightarrow> bool) \<Rightarrow> (nat \<Rightarrow> string \<Rightarrow> bool) \<Rightarrow> (string \<Rightarrow> string) \<Rightarrow> 'q console
    \<Rightarrow> (string \<times> string) option outcome \<times> 'q console" where
  "ask_for_model_choice exists exists_at expanduser c =
     (let ms = models expanduser;
          c1 = print_info (Rule 60) (print_info Model_header c);
          available = available_models exists ms
      in if available = [] then
           (Return None, print_info Using_env_default (print_error No_models_found c1))
         else
           (case show_models available (sort (map fst available))
                   (print_info Available_header c1) of
              (Raise e, c2) \<Rightarrow> (Raise e, c2)
            | (Return u, c2) \<Rightarrow>
                model_choice_loop exists_at 0 ms available
                  (print_info (Rule 60) (print_info Option_zero c2))))"

section \<open>One round of each loop\<close>

text \<open>
  What one round of a loop does with the line it has read, as functions of that line;
  the properties below are stated with them.

  Lines 57 and 58, and lines 85 and 86: the value of a line that parses as a number
  lying in the range, \<open>None\<close> for any other line.
\<close>

definition float_in_range :: "(string \<Rightarrow> pyfloat option) \<Rightarrow> pyfloat \<Rightarrow> pyfloat \<Rightarrow> string \<Rightarrow> pyfloat option" where
  "float_in_range float_of min_val max_val line =
     (case float_of (strip line) of
        Some v \<Rightarrow> if fle min_val v \<and> fle v max_val then Some v else None
      | None \<Rightarrow> None)"

definition int_in_range :: "(string \<Rightarrow> int option) \<Rightarrow> int \<Rightarrow> string \<Rightarrow> int option" where
  "int_in_range int_of min_val line =
     (case int_of (strip line) of
        Some v \<Rightarrow> if v \<ge> min_val then Some v else None
      | None \<Rightarrow> None)"

text \<open>
  Lines 61 and 63, and lines 89 and 91: the error shown for a line that is not accepted.
\<close>

definition float_error :: "(string \<Rightarrow> pyfloat option) \<Rightarrow> pyfloat \<Rightarrow> pyfloat \<Rightarrow> string \<Rightarrow> message" where
  "float_error float_of min_val max_val line =
     (case float_of (strip line) of Some v \<Rightarrow> Value_between min_val max_val | None \<Rightarrow> Not_a_number)"

definition int_error :: "(string \<Rightarrow> int option) \<Rightarrow> int \<Rightarrow> string \<Rightarrow> message" where
  "int_error int_of min_val line =
     (case int_of (strip line) of Some v \<Rightarrow> Value_at_least min_val | None \<Rightarrow> Not_an_integer)"

text \<open>
  Lines 26 to 34: the answer read from a line, \<open>None\<close> when the line is not an answer.
\<close>

definition yes_no_answer :: "bool \<Rightarrow> string \<Rightarrow> bool option" where
  "yes_no_answer dflt line =
     (let answer = lower (strip line)
      in if answer = [] then Some dflt
         else if answer \<in> set [''t'', ''tak'', ''y'', ''yes''] then Some True
         else if answer \<in> set [''n'', ''nie'', ''no''] then Some False
         else None)"

text \<open>
  Lines 22 and 24: the prompt of the yes/no question.
\<close>

definition yes_no_prompt :: "'q \<Rightarrow> bool \<Rightarrow> 'q prompt" where
  "yes_no_prompt q dflt = Yes_no_prompt q (if dflt then ''T/n'' else ''t/N'')"

text \<open>
  Lines 243 to 247: the errors shown for a choice that is neither \<open>0\<close> nor available,
  with \<open>exists\<close> the file system of that round; and what the console shows for lines
  that are all such choices, read from round \<open>n\<close> on: per line the prompt that read
  it and these errors.
\<close>

definition choice_errors :: "(string \<Rightarrow> bool) \<Rightarrow> (string \<times> model_entry) list \<Rightarrow> string \<Rightarrow> message list" where
  "choice_errors exists ms choice =
     (case map_of ms choice of
        Some model \<Rightarrow>
          if \<not> exists (entry_path model) then [Model_missing (entry_path model), Download_first]
          else [Invalid_choice]
      | None \<Rightarrow> [Invalid_choice])"

fun choice_rounds ::
  "(nat \<Rightarrow> string \<Rightarrow> bool) \<Rightarrow> nat \<Rightarrow> (string \<times> model_entry) list \<Rightarrow> string list
    \<Rightarrow> 'q event list" where
  "choice_rounds exists_at n ms [] = []"
| "choice_rounds exists_at n ms (line # rest) =
     Prompted Choice_prompt # map Print_error (choice_errors (exists_at n) ms (strip line))
       @ choice_rounds exists_at (Suc n) ms rest"

text \<open>
  What the console shows for lines that are each answered by one error and another
  prompt: per line the prompt that read it and the error.
\<close>

fun rounds :: "'q prompt \<Rightarrow> (string \<Rightarrow> message) \<Rightarrow> string list \<Rightarrow> 'q event list" where
  "rounds p err [] = []"
| "rounds p err (line # rest) = Prompted p # Print_error (err line) # rounds p err rest"


section \<open>Inputs of the examples\<close>

text \<open>
  Keyword arguments for the examples: a model name, the given path, GPU layer count and
  temperature, and every other field left to its default; and a file system holding
  exactly two files.
\<close>

definition sample_kwargs :: "string \<Rightarrow> int \<Rightarrow> pyfloat \<Rightarrow> LlamaConfig_kwargs" where
  "sample_kwargs p gpu temp =
     \<lparr>kw_engine = None, kw_model_name = Some ''Gemma'',
      kw_llama_model_path = Some p,
      kw_llama_gpu_layers = Some gpu, kw_llama_context_size = None,
      kw_llama_temperature = Some temp, kw_llama_top_p = None, kw_llama_top_k = None\<rparr>"

definition sample_exists :: "string \<Rightarrow> bool" where
  "sample_exists p = (p = ''/models/gemma.gguf'' \<or> p = ''/models/gemma.bin'')"

definition is_ok :: "'e + 'a \<Rightarrow> bool" where
  "is_ok r = (case r of Inl e \<Rightarrow> False | Inr v \<Rightarrow> True)"

text \<open>
  A finite part of the built-ins for the examples: \<open>float("1.5")\<close> is 1.5,
  \<open>float("2.5")\<close> is 2.5, \<open>float("nan")\<close> is NaN, \<open>int("5")\<close> is 5, \<open>int("-3")\<close>
  is -3, and \<open>float\<close> and \<open>int\<close> raise \<open>ValueError\<close> on \<open>abc\<close> and on the
  empty text. The examples give them no other text.
\<close>

definition float_sample :: "string \<Rightarrow> pyfloat option" where
  "float_sample s =
     (if s = ''1.5'' then Some (Finite 1.5)
      else if s = ''2.5'' then Some (Finite 2.5)
      else if s = ''nan'' then Some NaN
      else None)"

definition int_sample :: "string \<Rightarrow> int option" where
  "int_sample s =
     (if s = ''5'' then Some 5
      else if s = ''-3'' then Some (- 3)
      else None)"

text \<open>
  A home directory for \<open>expanduser\<close>, a file system in which only the second
  catalog file exists, the same file system in which the third catalog file appears
  after round 0 of the choice loop, and a console on which the user configures all
  three parameters.
\<close>

definition home_dir :: "string \<Rightarrow> string" where
  "home_dir p = ''/home/user'' @ drop 1 p"

definition only_gemma2 :: "string \<Rightarrow> bool" where
  "only_gemma2 p = (p = ''/home/user/models/gemma-2-2b-it-Q8_0.gguf'')"

definition downloaded_later :: "nat \<Rightarrow> string \<Rightarrow> bool" where
  "downloaded_later n p =
     (only_gemma2 p \<or> (1 \<le> n \<and> p = ''/home/user/models/Meta-Llama-3.1-8B-Instruct-Q4_K_M.gguf''))"

definition sample_run :: "question console" where
  "sample_run = \<lparr>stdin = [''t'', ''2.5'', ''1.5'', '''', ''abc'', ''5''], shown = []\<rparr>"

section \<open>Properties of the validator\<close>

lemma errors_simps:
  "errors (Inl e) = [e]" "errors (Inr v) = []"
  by (simp_all add: errors_def)

lemma is_ok_simps:
  "is_ok (Inl e) = False" "is_ok (Inr v) = True"
  by (simp_all add: is_ok_def)

lemma with_default_simps:
  "with_default d check None = Inr d" "with_default d check (Some v) = check v"
  by (simp_all add: with_default_def)

lemma required_simps:
  "required f check None = Inl (Field_required f)" "required f check (Some v) = check v"
  by (simp_all add: required_def)

text \<open>When construction succeeds, no field has reported an error.\<close>

lemma init_ok_fields:
  assumes "LlamaConfig_init policy exists kw = Inr cfg"
  shows "errors (with_default ''LLAMA'' (literal F_engine ''LLAMA'') (kw_engine kw)) = []"
    and "errors (required F_model_name Inr (kw_model_name kw)) = []"
    and "errors (required F_llama_model_path (validate_model_path exists) (kw_llama_model_path kw)) = []"
    and "errors (with_default 2048 (int_ge F_llama_context_size 1) (kw_llama_context_size kw)) = []"
    and "errors (with_default (Finite 0.9) (float_ge_le policy F_llama_top_p (Finite 0) (Finite 1)) (kw_llama_top_p kw)) = []"
    and "errors (with_default 40 (int_ge F_llama_top_k 0) (kw_llama_top_k kw)) = []"
  using assms by (simp_all add: LlamaConfig_init_def Let_def split: if_splits)

lemma sample_base:
  "LlamaConfig_init NaN_fails_ge sample_exists (sample_kwargs ''/models/gemma.gguf'' 1 (Finite 0.7)) =
      Inr \<lparr>engine = ''LLAMA'', model_name = ''Gemma'', llama_model_path = ''/models/gemma.gguf'',
           llama_gpu_layers = 1, llama_context_size = 2048, llama_temperature = Finite 0.7,
           llama_top_p = Finite 0.9, llama_top_k = 40\<rparr>"
  by (simp add: LlamaConfig_init_def sample_kwargs_def sample_exists_def Let_def with_default_simps
      required_simps validate_model_path_def endswith_def int_ge_def float_ge_le_def errors_simps)

text \<open>
  C1. Take keyword arguments from which construction succeeds and replace the GPU layer
  count by \<open>g\<close> and the temperature by a float \<open>t\<close> that is a number or an infinity
  (not NaN, which is in no range). Construction then succeeds exactly when
  \<open>g \<ge> -1\<close> and \<open>0.0 \<le> t \<le> 2.0\<close>, boundaries included, and the object holds \<open>g\<close>
  and \<open>t\<close>; otherwise it fails with the range errors of these two fields and nothing
  else. In particular 2.0 and -1 are accepted, 2.5 and -2 are rejected (see the
  instances that follow).
\<close>

theorem LlamaConfig_ranges:
  assumes "LlamaConfig_init policy exists kw = Inr cfg" and "t \<noteq> NaN"
  shows "LlamaConfig_init policy exists (kw\<lparr>kw_llama_gpu_layers := Some g, kw_llama_temperature := Some t\<rparr>) =
     (if - 1 \<le> g \<and> fle (Finite 0) t \<and> fle t (Finite 2)
      then Inr (cfg\<lparr>llama_gpu_layers := g, llama_temperature := t\<rparr>)
      else Inl ((if - 1 \<le> g then [] else [Not_ge F_llama_gpu_layers])
              @ (if \<not> fle (Finite 0) t then [Not_ge F_llama_temperature]
                 else if \<not> fle t (Finite 2) then [Not_le F_llama_temperature] else [])))"
proof -
  note ok = init_ok_fields [OF assms(1)]
  have cfg: "cfg = \<lparr>engine = projr (with_default ''LLAMA'' (literal F_engine ''LLAMA'') (kw_engine kw)),
      model_name = projr (required F_model_name Inr (kw_model_name kw)),
      llama_model_path = projr (required F_llama_model_path (validate_model_path exists) (kw_llama_model_path kw)),
      llama_gpu_layers = projr (with_default 1 (int_ge F_llama_gpu_layers (- 1)) (kw_llama_gpu_layers kw)),
      llama_context_size = projr (with_default 2048 (int_ge F_llama_context_size 1) (kw_llama_context_size kw)),
      llama_temperature = projr (with_default (Finite 0.7) (float_ge_le policy F_llama_temperature (Finite 0) (Finite 2)) (kw_llama_temperature kw)),
      llama_top_p = projr (with_default (Finite 0.9) (float_ge_le policy F_llama_top_p (Finite 0) (Finite 1)) (kw_llama_top_p kw)),
      llama_top_k = projr (with_default 40 (int_ge F_llama_top_k 0) (kw_llama_top_k kw))\<rparr>"
    using assms(1) by (simp add: LlamaConfig_init_def Let_def split: if_splits)
  show ?thesis
    unfolding LlamaConfig_init_def Let_def
    by (subst cfg)
      (simp add: ok assms(2) with_default_simps int_ge_def float_ge_le_def errors_simps)
qed

theorem LlamaConfig_ranges_witness:
  "is_ok (LlamaConfig_init NaN_fails_ge sample_exists (sample_kwargs ''/models/gemma.gguf'' (- 1) (Finite 2)))
   \<and> LlamaConfig_init NaN_fails_ge sample_exists (sample_kwargs ''/models/gemma.gguf'' (- 1) (Finite 2.5))
       = Inl [Not_le F_llama_temperature]
   \<and> LlamaConfig_init NaN_fails_ge sample_exists (sample_kwargs ''/models/gemma.gguf'' (- 2) (Finite 2))
       = Inl [Not_ge F_llama_gpu_layers]"
proof -
  have upd: "(sample_kwargs p 1 (Finite 0.7))\<lparr>kw_llama_gpu_layers := Some g, kw_llama_temperature := Some t\<rparr>
      = sample_kwargs p g t" for p g t
    by (simp add: sample_kwargs_def)
  show ?thesis
    using LlamaConfig_ranges [OF sample_base, where g = "- 1" and t = "Finite 2"]
      LlamaConfig_ranges [OF sample_base, where g = "- 1" and t = "Finite 2.5"]
      LlamaConfig_ranges [OF sample_base, where g = "- 2" and t = "Finite 2"]
    by (simp add: upd is_ok_simps)
qed

text \<open>
  C2. For every model path \<open>p\<close> passed to the constructor: when \<open>p\<close> does not exist,
  construction fails, the failure names the missing file and there is no extension
  error, whatever the suffix of \<open>p\<close>; when \<open>p\<close> exists and does not end in \<open>.gguf\<close>,
  construction fails with the extension error; when \<open>p\<close> exists and ends in \<open>.gguf\<close>,
  the path validator returns \<open>p\<close> unchanged and any constructed object holds \<open>p\<close>.
  A failure is a list of errors: it carries no configuration object.
\<close>

theorem model_path_checks:
  assumes "kw_llama_model_path kw = Some p"
  shows "(\<not> exists p \<longrightarrow> (\<exists>errs. LlamaConfig_init policy exists kw = Inl errs
            \<and> Model_file_missing p \<in> set errs \<and> Model_file_extension \<notin> set errs))
       \<and> (exists p \<and> \<not> endswith p ''.gguf'' \<longrightarrow> (\<exists>errs. LlamaConfig_init policy exists kw = Inl errs
            \<and> Model_file_extension \<in> set errs \<and> Model_file_missing p \<notin> set errs))
       \<and> (exists p \<and> endswith p ''.gguf'' \<longrightarrow> validate_model_path exists p = Inr p
            \<and> (\<forall>cfg. LlamaConfig_init policy exists kw = Inr cfg \<longrightarrow> llama_model_path cfg = p))"
proof -
  have int_field:
    "Model_file_missing p \<notin> set (errors (with_default d (int_ge f lo) arg))"
    "Model_file_extension \<notin> set (errors (with_default d (int_ge f lo) arg))" for d f lo arg
    by (auto simp add: with_default_def int_ge_def errors_def split: option.splits if_splits)
  have float_field:
    "Model_file_missing p \<notin> set (errors (with_default d' (float_ge_le policy f lo' hi) arg'))"
    "Model_file_extension \<notin> set (errors (with_default d' (float_ge_le policy f lo' hi) arg'))"
    for d' f lo' hi arg'
    by (auto simp add: with_default_def float_ge_le_def errors_def
        split: option.splits if_splits nan_policy.splits)
  have engine_field:
    "Model_file_missing p
       \<notin> set (errors (with_default ''LLAMA'' (literal F_engine ''LLAMA'') (kw_engine kw)))"
    "Model_file_extension
       \<notin> set (errors (with_default ''LLAMA'' (literal F_engine ''LLAMA'') (kw_engine kw)))"
    by (auto simp add: with_default_def literal_def errors_def split: option.splits if_splits)
  have name_field:
    "Model_file_missing p \<notin> set (errors (required F_model_name Inr (kw_model_name kw)))"
    "Model_file_extension \<notin> set (errors (required F_model_name Inr (kw_model_name kw)))"
    by (auto simp add: required_def errors_def split: option.splits)
  note others = int_field float_field engine_field name_field
  have path_field: "required F_llama_model_path (validate_model_path exists) (kw_llama_model_path kw)
      = validate_model_path exists p"
    using assms by (simp add: required_simps)
  show ?thesis
  proof (intro conjI impI)
    assume "\<not> exists p"
    then have "errors (validate_model_path exists p) = [Model_file_missing p]"
      by (simp add: validate_model_path_def errors_simps)
    then show "\<exists>errs. LlamaConfig_init policy exists kw = Inl errs
        \<and> Model_file_missing p \<in> set errs \<and> Model_file_extension \<notin> set errs"
      unfolding LlamaConfig_init_def Let_def path_field by (simp add: others)
  next
    assume "exists p \<and> \<not> endswith p ''.gguf''"
    then have "errors (validate_model_path exists p) = [Model_file_extension]"
      by (simp add: validate_model_path_def errors_simps)
    then show "\<exists>errs. LlamaConfig_init policy exists kw = Inl errs
        \<and> Model_file_extension \<in> set errs \<and> Model_file_missing p \<notin> set errs"
      unfolding LlamaConfig_init_def Let_def path_field by (simp add: others)
  next
    assume "exists p \<and> endswith p ''.gguf''"
    then show "validate_model_path exists p = Inr p"
      by (simp add: validate_model_path_def)
  next
    assume "exists p \<and> endswith p ''.gguf''"
    then have "validate_model_path exists p = Inr p"
      by (simp add: validate_model_path_def)
    then show "\<forall>cfg. LlamaConfig_init policy exists kw = Inr cfg \<longrightarrow> llama_model_path cfg = p"
      unfolding LlamaConfig_init_def Let_def path_field by (auto split: if_splits)
  qed
qed

theorem model_path_checks_witness:
  "LlamaConfig_init NaN_fails_ge sample_exists (sample_kwargs ''/models/absent.gguf'' 1 (Finite 0.7))
      = Inl [Model_file_missing ''/models/absent.gguf'']
   \<and> LlamaConfig_init NaN_fails_ge sample_exists (sample_kwargs ''/models/absent.bin'' 1 (Finite 0.7))
      = Inl [Model_file_missing ''/models/absent.bin'']
   \<and> LlamaConfig_init NaN_fails_ge sample_exists (sample_kwargs ''/models/gemma.bin'' 1 (Finite 0.7))
      = Inl [Model_file_extension]
   \<and> validate_model_path sample_exists ''/models/gemma.gguf'' = Inr ''/models/gemma.gguf''
   \<and> is_ok (LlamaConfig_init NaN_fails_ge sample_exists (sample_kwargs ''/models/gemma.gguf'' 1 (Finite 0.7)))"
proof -
  have p: "kw_llama_model_path (sample_kwargs q 1 (Finite 0.7)) = Some q" for q
    by (simp add: sample_kwargs_def)
  have absent: "\<not> sample_exists ''/models/absent.gguf''" "\<not> sample_exists ''/models/absent.bin''"
    by (simp_all add: sample_exists_def)
  have bin: "sample_exists ''/models/gemma.bin'' \<and> \<not> endswith ''/models/gemma.bin'' ''.gguf''"
    by (simp add: sample_exists_def endswith_def)
  have gguf: "sample_exists ''/models/gemma.gguf'' \<and> endswith ''/models/gemma.gguf'' ''.gguf''"
    by (simp add: sample_exists_def endswith_def)
  show ?thesis
    using model_path_checks [OF p [of "''/models/absent.gguf''"], where exists = sample_exists] absent
      model_path_checks [OF p [of "''/models/absent.bin''"], where exists = sample_exists]
      model_path_checks [OF p [of "''/models/gemma.bin''"], where exists = sample_exists] bin
      model_path_checks [OF p [of "''/models/gemma.gguf''"], where exists = sample_exists] gguf
    by (simp add: LlamaConfig_init_def sample_kwargs_def sample_exists_def Let_def with_default_simps
      required_simps validate_model_path_def endswith_def int_ge_def float_ge_le_def errors_simps
      is_ok_simps)
qed

section \<open>Properties of the prompts\<close>

text \<open>
  The defining equations of the recursive functions are applied one round at a time,
  by the lemmas for an empty and a non-empty standard input that follow.
\<close>

declare ask_yes_no.simps [simp del] ask_float.simps [simp del] ask_int.simps [simp del]
  model_choice_loop.simps [simp del]

lemma input_py_Nil:
  "input_py p \<lparr>stdin = [], shown = out\<rparr> = (Raise EOFError, \<lparr>stdin = [], shown = out @ [Prompted p]\<rparr>)"
  by (simp add: input_py_def)

lemma input_py_Cons:
  "input_py p \<lparr>stdin = l # ls, shown = out\<rparr> = (Return l, \<lparr>stdin = ls, shown = out @ [Prompted p]\<rparr>)"
  by (simp add: input_py_def)

lemma print_mk:
  "print_error m \<lparr>stdin = ls, shown = out\<rparr> = \<lparr>stdin = ls, shown = out @ [Print_error m]\<rparr>"
  "print_info m \<lparr>stdin = ls, shown = out\<rparr> = \<lparr>stdin = ls, shown = out @ [Print_info m]\<rparr>"
  by (simp_all add: print_error_def print_info_def)

lemma fold_print_info:
  "fold print_info ms \<lparr>stdin = ls, shown = out\<rparr> = \<lparr>stdin = ls, shown = out @ map Print_info ms\<rparr>"
  by (induction ms arbitrary: out) (simp_all add: print_mk)

lemma ask_yes_no_Nil:
  "ask_yes_no q d \<lparr>stdin = [], shown = out\<rparr> =
     (Raise EOFError, \<lparr>stdin = [], shown = out @ [Prompted (yes_no_prompt q d)]\<rparr>)"
  by (subst ask_yes_no.simps) (simp add: input_py_Nil yes_no_prompt_def)

lemma ask_yes_no_Cons:
  "ask_yes_no q d \<lparr>stdin = l # ls, shown = out\<rparr> =
     (case yes_no_answer d l of
        Some b \<Rightarrow> (Return b, \<lparr>stdin = ls, shown = out @ [Prompted (yes_no_prompt q d)]\<rparr>)
      | None \<Rightarrow> ask_yes_no q d
          \<lparr>stdin = ls, shown = out @ [Prompted (yes_no_prompt q d), Print_error Answer_t_or_n]\<rparr>)"
  by (subst ask_yes_no.simps)
    (simp add: input_py_Cons print_mk yes_no_answer_def yes_no_prompt_def Let_def)

lemma ask_float_Nil:
  "ask_float float_of q d mn mx \<lparr>stdin = [], shown = out\<rparr> =
     (Raise EOFError, \<lparr>stdin = [], shown = out @ [Prompted (Float_prompt q d)]\<rparr>)"
  by (subst ask_float.simps) (simp add: input_py_Nil)

lemma ask_float_Cons:
  "ask_float float_of q d mn mx \<lparr>stdin = l # ls, shown = out\<rparr> =
     (if strip l = [] then (Return d, \<lparr>stdin = ls, shown = out @ [Prompted (Float_prompt q d)]\<rparr>)
      else case float_in_range float_of mn mx l of
             Some v \<Rightarrow> (Return v, \<lparr>stdin = ls, shown = out @ [Prompted (Float_prompt q d)]\<rparr>)
           | None \<Rightarrow> ask_float float_of q d mn mx
               \<lparr>stdin = ls, shown = out @ [Prompted (Float_prompt q d), Print_error (float_error float_of mn mx l)]\<rparr>)"
  by (subst ask_float.simps)
    (simp add: input_py_Cons print_mk float_in_range_def float_error_def Let_def split: option.splits)

lemma ask_int_Nil:
  "ask_int int_of q d mn \<lparr>stdin = [], shown = out\<rparr> =
     (Raise EOFError, \<lparr>stdin = [], shown = out @ [Prompted (Int_prompt q d)]\<rparr>)"
  by (subst ask_int.simps) (simp add: input_py_Nil)

lemma ask_int_Cons:
  "ask_int int_of q d mn \<lparr>stdin = l # ls, shown = out\<rparr> =
     (if strip l = [] then (Return d, \<lparr>stdin = ls, shown = out @ [Prompted (Int_prompt q d)]\<rparr>)
      else case int_in_range int_of mn l of
             Some v \<Rightarrow> (Return v, \<lparr>stdin = ls, shown = out @ [Prompted (Int_prompt q d)]\<rparr>)
           | None \<Rightarrow> ask_int int_of q d mn
               \<lparr>stdin = ls, shown = out @ [Prompted (Int_prompt q d), Print_error (int_error int_of mn l)]\<rparr>)"
  by (subst ask_int.simps)
    (simp add: input_py_Cons print_mk int_in_range_def int_error_def Let_def split: option.splits)

lemma model_choice_loop_Nil:
  "model_choice_loop exists_at n ms available \<lparr>stdin = [], shown = out\<rparr> =
     (Raise EOFError, \<lparr>stdin = [], shown = out @ [Prompted Choice_prompt]\<rparr>)"
  by (subst model_choice_loop.simps) (simp add: input_py_Nil)

lemma model_choice_loop_Cons:
  "model_choice_loop exists_at n ms available \<lparr>stdin = l # ls, shown = out\<rparr> =
     (if strip l = ''0'' then
        (Return None, \<lparr>stdin = ls, shown = out @ [Prompted Choice_prompt, Print_info Using_env_model]\<rparr>)
      else case map_of available (strip l) of
             Some selected \<Rightarrow>
               (Return (Some (entry_path selected, entry_name selected)),
                \<lparr>stdin = ls, shown = out @ [Prompted Choice_prompt,
                   Print_info (Selected (entry_name selected))]\<rparr>)
           | None \<Rightarrow>
               model_choice_loop exists_at (Suc n) ms available
                 \<lparr>stdin = ls, shown = out @ Prompted Choice_prompt
                    # map Print_error (choice_errors (exists_at n) ms (strip l))\<rparr>)"
  by (subst model_choice_loop.simps)
    (simp add: input_py_Cons print_mk choice_errors_def Let_def split: option.splits)

lemmas line_eval =
  strip_def isspace_def lower_def lower_char_def isupper_def yes_no_answer_def yes_no_prompt_def
  float_in_range_def float_error_def int_in_range_def int_error_def float_sample_def int_sample_def
  ask_yes_no_Nil ask_yes_no_Cons ask_float_Nil ask_float_Cons ask_int_Nil ask_int_Cons print_mk Let_def

text \<open>
  A prompt that meets a line it accepts after lines it rejects returns at that line;
  a prompt that returns has met a line it accepts.
\<close>

lemma ask_yes_no_first:
  assumes "\<forall>x\<in>set pre. yes_no_answer d x = None" and "yes_no_answer d l = Some b"
  shows "ask_yes_no q d \<lparr>stdin = pre @ l # rest, shown = out\<rparr> =
     (Return b, \<lparr>stdin = rest,
        shown = out @ rounds (yes_no_prompt q d) (\<lambda>x. Answer_t_or_n) pre
                @ [Prompted (yes_no_prompt q d)]\<rparr>)"
  using assms
proof (induction pre arbitrary: out)
  case Nil
  then show ?case by (simp add: ask_yes_no_Cons)
next
  case (Cons x pre)
  then show ?case by (simp add: ask_yes_no_Cons)
qed

lemma ask_yes_no_never:
  assumes "\<forall>x\<in>set ls. yes_no_answer d x = None"
  shows "ask_yes_no q d \<lparr>stdin = ls, shown = out\<rparr> =
     (Raise EOFError, \<lparr>stdin = [],
        shown = out @ rounds (yes_no_prompt q d) (\<lambda>x. Answer_t_or_n) ls
                @ [Prompted (yes_no_prompt q d)]\<rparr>)"
  using assms
proof (induction ls arbitrary: out)
  case Nil
  then show ?case by (simp add: ask_yes_no_Nil)
next
  case (Cons x ls)
  then show ?case by (simp add: ask_yes_no_Cons)
qed




lemma ask_float_returns:
  "ask_float float_of q d mn mx \<lparr>stdin = ls, shown = out\<rparr> = (Return v, c') \<Longrightarrow>
     (v = d \<and> (\<exists>x\<in>set ls. strip x = []))
     \<or> (\<exists>x\<in>set ls. strip x \<noteq> [] \<and> float_in_range float_of mn mx x = Some v)"
proof (induction ls arbitrary: out)
  case Nil
  then show ?case by (simp add: ask_float_Nil)
next
  case (Cons x ls)
  show ?case
  proof (cases "strip x = []")
    case True
    with Cons.prems show ?thesis by (simp add: ask_float_Cons)
  next
    case False
    show ?thesis
    proof (cases "float_in_range float_of mn mx x")
      case None
      with False Cons.prems Cons.IH show ?thesis
        by (simp add: ask_float_Cons)
    next
      case (Some w)
      with False Cons.prems show ?thesis by (simp add: ask_float_Cons)
    qed
  qed
qed

lemma ask_int_returns:
  "ask_int int_of q d mn \<lparr>stdin = ls, shown = out\<rparr> = (Return v, c') \<Longrightarrow>
     (v = d \<and> (\<exists>x\<in>set ls. strip x = []))
     \<or> (\<exists>x\<in>set ls. strip x \<noteq> [] \<and> int_in_range int_of mn x = Some v)"
proof (induction ls arbitrary: out)
  case Nil
  then show ?case by (simp add: ask_int_Nil)
next
  case (Cons x ls)
  show ?case
  proof (cases "strip x = []")
    case True
    with Cons.prems show ?thesis by (simp add: ask_int_Cons)
  next
    case False
    show ?thesis
    proof (cases "int_in_range int_of mn x")
      case None
      with False Cons.prems Cons.IH show ?thesis
        by (simp add: ask_int_Cons)
    next
      case (Some w)
      with False Cons.prems show ?thesis by (simp add: ask_int_Cons)
    qed
  qed
qed

lemma ask_float_range:
  assumes "ask_float float_of q d mn mx c = (Return v, c')"
  shows "v = d \<or> (fle mn v \<and> fle v mx)"
proof (cases c)
  case (fields ls out)
  with assms have "ask_float float_of q d mn mx \<lparr>stdin = ls, shown = out\<rparr> = (Return v, c')"
    by simp
  from ask_float_returns [OF this] show ?thesis
    by (auto simp add: float_in_range_def split: option.splits if_splits)
qed

lemma ask_int_range:
  assumes "ask_int int_of q d mn c = (Return v, c')"
  shows "v = d \<or> mn \<le> v"
proof (cases c)
  case (fields ls out)
  with assms have "ask_int int_of q d mn \<lparr>stdin = ls, shown = out\<rparr> = (Return v, c')"
    by simp
  from ask_int_returns [OF this] show ?thesis
    by (auto simp add: int_in_range_def split: option.splits if_splits)
qed

text \<open>
  Stripping: whitespace around a text does not change what is left, lower-casing
  commutes with stripping, and the answer tokens contain no whitespace.
\<close>

lemma isspace_lower_char: "isspace (lower_char c) = isspace c"
  by (cases c) (auto simp add: isspace_def isupper_def lower_char_def)

lemma dropWhile_all: "\<forall>x\<in>set xs. P x \<Longrightarrow> dropWhile P xs = []"
  by (simp add: dropWhile_eq_Nil_conv)

lemma strip_append_space:
  assumes "\<forall>c\<in>set ws1. isspace c" and "\<forall>c\<in>set ws2. isspace c"
  shows "strip (ws1 @ s @ ws2) = strip s"
proof -
  have front: "dropWhile isspace (ws1 @ s @ ws2) = dropWhile isspace (s @ ws2)"
    by (rule dropWhile_append2) (use assms(1) in auto)
  show ?thesis
  proof (cases "\<forall>c\<in>set s. isspace c")
    case True
    have a: "dropWhile isspace s = []"
      using True by (rule dropWhile_all)
    have b: "dropWhile isspace (s @ ws2) = []"
      by (rule dropWhile_all) (use True assms(2) in auto)
    show ?thesis by (simp only: strip_def front a b)
  next
    case False
    then have "dropWhile isspace (s @ ws2) = dropWhile isspace s @ ws2"
      by (auto simp add: dropWhile_append1)
    moreover have "dropWhile isspace (rev ws2 @ t) = dropWhile isspace t" for t
      by (rule dropWhile_append2) (use assms(2) in auto)
    ultimately show ?thesis by (simp add: strip_def front)
  qed
qed

lemma strip_spaces:
  assumes "\<forall>c\<in>set ws. isspace c"
  shows "strip ws = []"
  using assms by (simp add: strip_def dropWhile_all)

lemma strip_lower: "strip (lower s) = lower (strip s)"
  by (simp add: strip_def lower_def dropWhile_map rev_map comp_def isspace_lower_char)

lemma lower_token_strip:
  assumes "lower s \<in> set [''t'', ''tak'', ''y'', ''yes'', ''n'', ''nie'', ''no'']"
  shows "lower (strip s) = lower s"
proof -
  have "strip (lower s) = lower s"
    using assms by (auto simp add: strip_def isspace_def)
  then show ?thesis by (simp add: strip_lower)
qed

text \<open>
  The catalog and the choice loop.
\<close>

lemma model_choice_loop_never:
  assumes "\<forall>x\<in>set ls. strip x \<noteq> ''0'' \<and> map_of available (strip x) = None"
  shows "model_choice_loop exists_at n ms available \<lparr>stdin = ls, shown = out\<rparr> =
     (Raise EOFError, \<lparr>stdin = [],
        shown = out @ choice_rounds exists_at n ms ls @ [Prompted Choice_prompt]\<rparr>)"
  using assms
proof (induction ls arbitrary: n out)
  case Nil
  then show ?case by (simp add: model_choice_loop_Nil)
next
  case (Cons x ls)
  then show ?case by (simp add: model_choice_loop_Cons)
qed

lemma model_choice_loop_first:
  assumes "\<forall>x\<in>set pre. strip x \<noteq> ''0'' \<and> map_of available (strip x) = None"
  shows "model_choice_loop exists_at n ms available \<lparr>stdin = pre @ l # rest, shown = out\<rparr> =
     model_choice_loop exists_at (n + length pre) ms available
       \<lparr>stdin = l # rest, shown = out @ choice_rounds exists_at n ms pre\<rparr>"
  using assms
proof (induction pre arbitrary: n out)
  case Nil
  then show ?case by simp
next
  case (Cons x pre)
  have "model_choice_loop exists_at n ms available
          \<lparr>stdin = (x # pre) @ l # rest, shown = out\<rparr> =
        model_choice_loop exists_at (Suc n) ms available
          \<lparr>stdin = pre @ l # rest, shown = out @ Prompted Choice_prompt
             # map Print_error (choice_errors (exists_at n) ms (strip x))\<rparr>"
    using Cons.prems by (simp add: model_choice_loop_Cons)
  also have "\<dots> = model_choice_loop exists_at (Suc n + length pre) ms available
          \<lparr>stdin = l # rest, shown = (out @ Prompted Choice_prompt
             # map Print_error (choice_errors (exists_at n) ms (strip x)))
             @ choice_rounds exists_at (Suc n) ms pre\<rparr>"
    using Cons.prems by (intro Cons.IH) simp
  finally show ?case by simp
qed

lemma zero_not_in_catalog: "map_of (models expanduser) ''0'' = None"
  by (simp add: models_def)

lemma available_only_gemma2:
  "available_models only_gemma2 (models home_dir) = [(''2'', snd (models home_dir ! 1))]"
  by (simp add: available_models_def models_def only_gemma2_def home_dir_def)

lemma sample_run_result:
  "fst (ask_for_generation_params float_sample int_sample (Finite 0.7) (Finite 0.9) 40 sample_run)
     = Return \<lparr>temperature = Finite 1.5, top_p = Finite 0.9, top_k = 5\<rparr>"
  by (simp add: ask_for_generation_params_def sample_run_def fold_print_info line_eval)

text \<open>
  C3. When the first line of standard input is empty, the bounded float prompt and the
  bounded integer prompt return exactly the default they were given, having shown the
  prompt once and read that one line. Nothing is assumed about the default: it is not
  compared with \<open>min_val\<close> or \<open>max_val\<close>, and a default outside the range is
  returned like any other (in the instance that follows, 5.0 for the range 0.0 to 2.0
  and -3 for the lower bound 0).
\<close>

theorem empty_line_default:
  "ask_float float_of q d min_val max_val \<lparr>stdin = [] # ls, shown = out\<rparr> =
     (Return d, \<lparr>stdin = ls, shown = out @ [Prompted (Float_prompt q d)]\<rparr>)
   \<and> ask_int int_of q k min_k \<lparr>stdin = [] # ls, shown = out\<rparr> =
     (Return k, \<lparr>stdin = ls, shown = out @ [Prompted (Int_prompt q k)]\<rparr>)"
  by (simp add: ask_float_Cons ask_int_Cons strip_def)

theorem empty_line_default_witness:
  "\<not> fle (Finite 5) (Finite 2)
   \<and> ask_float float_sample Q_temperature (Finite 5) (Finite 0) (Finite 2)
       \<lparr>stdin = ['''', ''1.5''], shown = []\<rparr> =
     (Return (Finite 5), \<lparr>stdin = [''1.5''], shown = [Prompted (Float_prompt Q_temperature (Finite 5))]\<rparr>)
   \<and> ask_int int_sample Q_temperature (- 3) 0 \<lparr>stdin = ['''', ''1.5''], shown = []\<rparr> =
     (Return (- 3), \<lparr>stdin = [''1.5''], shown = [Prompted (Int_prompt Q_temperature (- 3))]\<rparr>)"
  using empty_line_default [of float_sample Q_temperature "Finite 5" "Finite 0" "Finite 2"
      "[''1.5'']" "[]" int_sample "- 3" 0]
  by simp




text \<open>
  C5. One round of the yes/no prompt, on the line stripped and lower-cased: the empty
  text returns the default; \<open>t\<close>, \<open>tak\<close>, \<open>y\<close>, \<open>yes\<close> return true and
  \<open>n\<close>, \<open>nie\<close>, \<open>no\<close> return false, in any letter case; on any other text
  the prompt shows the error and continues with the next line, so it does not return at
  that line. On an input of such other lines only, it never returns a value: it shows
  the error once per line and ends with \<open>EOFError\<close> when the input does.
\<close>

theorem yes_no_tokens:
  "ask_yes_no q d \<lparr>stdin = l # ls, shown = out\<rparr> =
     (if lower (strip l) = [] then
        (Return d, \<lparr>stdin = ls, shown = out @ [Prompted (yes_no_prompt q d)]\<rparr>)
      else if lower (strip l) \<in> set [''t'', ''tak'', ''y'', ''yes''] then
        (Return True, \<lparr>stdin = ls, shown = out @ [Prompted (yes_no_prompt q d)]\<rparr>)
      else if lower (strip l) \<in> set [''n'', ''nie'', ''no''] then
        (Return False, \<lparr>stdin = ls, shown = out @ [Prompted (yes_no_prompt q d)]\<rparr>)
      else ask_yes_no q d
        \<lparr>stdin = ls, shown = out @ [Prompted (yes_no_prompt q d), Print_error Answer_t_or_n]\<rparr>)
   \<and> ((\<forall>x\<in>set ls. lower (strip x) \<notin> set ['''', ''t'', ''tak'', ''y'', ''yes'', ''n'', ''nie'', ''no'']) \<longrightarrow>
        ask_yes_no q d \<lparr>stdin = ls, shown = out\<rparr> =
          (Raise EOFError, \<lparr>stdin = [],
             shown = out @ rounds (yes_no_prompt q d) (\<lambda>x. Answer_t_or_n) ls
                     @ [Prompted (yes_no_prompt q d)]\<rparr>))"
proof (intro conjI impI)
  show "ask_yes_no q d \<lparr>stdin = l # ls, shown = out\<rparr> =
     (if lower (strip l) = [] then
        (Return d, \<lparr>stdin = ls, shown = out @ [Prompted (yes_no_prompt q d)]\<rparr>)
      else if lower (strip l) \<in> set [''t'', ''tak'', ''y'', ''yes''] then
        (Return True, \<lparr>stdin = ls, shown = out @ [Prompted (yes_no_prompt q d)]\<rparr>)
      else if lower (strip l) \<in> set [''n'', ''nie'', ''no''] then
        (Return False, \<lparr>stdin = ls, shown = out @ [Prompted (yes_no_prompt q d)]\<rparr>)
      else ask_yes_no q d
        \<lparr>stdin = ls, shown = out @ [Prompted (yes_no_prompt q d), Print_error Answer_t_or_n]\<rparr>)"
    by (simp add: ask_yes_no_Cons yes_no_answer_def Let_def)
next
  assume "\<forall>x\<in>set ls. lower (strip x) \<notin> set ['''', ''t'', ''tak'', ''y'', ''yes'', ''n'', ''nie'', ''no'']"
  then have "\<forall>x\<in>set ls. yes_no_answer d x = None"
    by (auto simp add: yes_no_answer_def Let_def)
  then show "ask_yes_no q d \<lparr>stdin = ls, shown = out\<rparr> =
          (Raise EOFError, \<lparr>stdin = [],
             shown = out @ rounds (yes_no_prompt q d) (\<lambda>x. Answer_t_or_n) ls
                     @ [Prompted (yes_no_prompt q d)]\<rparr>)"
    by (rule ask_yes_no_never)
qed

theorem yes_no_tokens_witness:
  "fst (ask_yes_no Q_configure True \<lparr>stdin = [''''], shown = []\<rparr>) = Return True
   \<and> fst (ask_yes_no Q_configure True \<lparr>stdin = [''n''], shown = []\<rparr>) = Return False
   \<and> fst (ask_yes_no Q_configure False \<lparr>stdin = [''TAK''], shown = []\<rparr>) = Return True
   \<and> fst (ask_yes_no Q_configure False \<lparr>stdin = [''Yes''], shown = []\<rparr>) = Return True
   \<and> fst (ask_yes_no Q_configure True \<lparr>stdin = [''nIe''], shown = []\<rparr>) = Return False
   \<and> ask_yes_no Q_configure True \<lparr>stdin = [''xyz''], shown = []\<rparr> =
       (Raise EOFError, \<lparr>stdin = [],
          shown = [Prompted (Yes_no_prompt Q_configure ''T/n''), Print_error Answer_t_or_n,
                   Prompted (Yes_no_prompt Q_configure ''T/n'')]\<rparr>)
   \<and> ask_yes_no Q_configure True \<lparr>stdin = [''xyz'', ''no''], shown = []\<rparr> =
       (Return False, \<lparr>stdin = [],
          shown = [Prompted (Yes_no_prompt Q_configure ''T/n''), Print_error Answer_t_or_n,
                   Prompted (Yes_no_prompt Q_configure ''T/n'')]\<rparr>)"
  using yes_no_tokens [of Q_configure True "''''" "[]" "[]"]
    yes_no_tokens [of Q_configure True "''n''" "[]" "[]"]
    yes_no_tokens [of Q_configure False "''TAK''" "[]" "[]"]
    yes_no_tokens [of Q_configure False "''Yes''" "[]" "[]"]
    yes_no_tokens [of Q_configure True "''nIe''" "[]" "[]"]
    yes_no_tokens [of Q_configure True "''xyz''" "[''xyz'']" "[]"]
    yes_no_tokens [of Q_configure True "''xyz''" "[''no'']" "[]"]
  by (simp add: line_eval)

text \<open>
  C6. The gate of \<open>ask_for_generation_params\<close> is the yes/no prompt with default
  false, so a negative answer is \<open>n\<close>, \<open>nie\<close>, \<open>no\<close> or an empty line. When that
  answer comes, after any number of lines that are no answer at all, the function
  returns exactly the three current values it was given, whatever they are. It shows
  the header, the gate with one error per unusable line, and the notice that the
  current values are used; it reads nothing after the answer and asks no further
  question. The instance that follows is 0.7, 0.9, 40 with the answer \<open>n\<close>.
\<close>

theorem decline_keeps_current:
  assumes "\<forall>x\<in>set pre. lower (strip x) \<notin> set ['''', ''t'', ''tak'', ''y'', ''yes'', ''n'', ''nie'', ''no'']"
    and "lower (strip l) \<in> set ['''', ''n'', ''nie'', ''no'']"
  shows "ask_for_generation_params float_of int_of current_temp current_top_p current_top_k
           \<lparr>stdin = pre @ l # rest, shown = out\<rparr> =
     (Return \<lparr>temperature = current_temp, top_p = current_top_p, top_k = current_top_k\<rparr>,
      \<lparr>stdin = rest,
       shown = out @ [Print_info Generation_header, Print_info (Rule 50)]
         @ rounds (yes_no_prompt Q_configure False) (\<lambda>x. Answer_t_or_n) pre
         @ [Prompted (yes_no_prompt Q_configure False), Print_info Using_default_params]\<rparr>)"
proof -
  have a: "\<forall>x\<in>set pre. yes_no_answer False x = None"
    using assms(1) by (auto simp add: yes_no_answer_def Let_def)
  have b: "yes_no_answer False l = Some False"
    using assms(2) by (auto simp add: yes_no_answer_def Let_def)
  show ?thesis
    by (simp add: ask_for_generation_params_def Let_def print_mk ask_yes_no_first [OF a b])
qed

theorem decline_keeps_current_witness:
  "ask_for_generation_params float_sample int_sample (Finite 0.7) (Finite 0.9) 40
       \<lparr>stdin = [''xyz'', ''n'', ''1.5''], shown = []\<rparr> =
     (Return \<lparr>temperature = Finite 0.7, top_p = Finite 0.9, top_k = 40\<rparr>,
      \<lparr>stdin = [''1.5''],
       shown = [Print_info Generation_header, Print_info (Rule 50),
                Prompted (Yes_no_prompt Q_configure ''t/N''), Print_error Answer_t_or_n,
                Prompted (Yes_no_prompt Q_configure ''t/N''), Print_info Using_default_params]\<rparr>)"
proof -
  have a: "\<forall>x\<in>set [''xyz'']. lower (strip x) \<notin> set ['''', ''t'', ''tak'', ''y'', ''yes'', ''n'', ''nie'', ''no'']"
    by (simp add: line_eval)
  have b: "lower (strip ''n'') \<in> set ['''', ''n'', ''nie'', ''no'']"
    by (simp add: line_eval)
  show ?thesis
    using decline_keeps_current [OF a b, of float_sample int_sample "Finite 0.7" "Finite 0.9" 40
        "[''1.5'']" "[]"]
    by (simp add: yes_no_prompt_def)
qed

text \<open>
  C7. When none of the paths of the three catalog entries exists,
  \<open>ask_for_model_choice\<close> returns \<open>None\<close>. It shows the header, the warning that
  no model was found and the notice that the default is used, and nothing else: no
  prompt is shown and standard input is left as it was.
\<close>

theorem no_models_no_prompt:
  assumes "\<forall>(key, model)\<in>set (models expanduser). \<not> exists (entry_path model)"
  shows "ask_for_model_choice exists exists_at expanduser \<lparr>stdin = ls, shown = out\<rparr> =
     (Return None, \<lparr>stdin = ls, shown = out @ [Print_info Model_header, Print_info (Rule 60),
        Print_error No_models_found, Print_info Using_env_default]\<rparr>)"
proof -
  have "available_models exists (models expanduser) = []"
    using assms unfolding available_models_def by (auto simp add: filter_empty_conv)
  then show ?thesis
    by (simp add: ask_for_model_choice_def Let_def print_mk)
qed

theorem no_models_no_prompt_witness:
  "ask_for_model_choice (\<lambda>p. False) downloaded_later home_dir \<lparr>stdin = [''1''], shown = []\<rparr> =
     (Return None, \<lparr>stdin = [''1''], shown = [Print_info Model_header, Print_info (Rule 60),
        Print_error No_models_found, Print_info Using_env_default]\<rparr>)"
proof -
  have a: "\<forall>(key, model)\<in>set (models home_dir). \<not> (\<lambda>p. False) (entry_path model)"
    by simp
  show ?thesis
    using no_models_no_prompt [OF a, of downloaded_later "[''1'']" "[]"] by simp
qed

text \<open>
  C8, as stated, fails: a choice that is a key of the catalog and not of the available
  entries does not always show the error naming the path. Line 243 asks the file system
  again, after the choice has been read. Here only the second catalog file exists when
  \<open>ask_for_model_choice\<close> is called, and the third appears after round 0: the choice
  \<open>3\<close>, a catalog key that is not available, shows the error naming the path in round
  0 and the invalid-choice error in round 1.
\<close>

theorem catalog_key_after_download_counterexample:
  "map_of (models home_dir) ''3'' \<noteq> None
   \<and> map_of (available_models only_gemma2 (models home_dir)) ''3'' = None
   \<and> ask_for_model_choice only_gemma2 downloaded_later home_dir
       \<lparr>stdin = [''3'', ''3''], shown = []\<rparr> =
     (Raise EOFError,
      \<lparr>stdin = [],
       shown = [Print_info Model_header, Print_info (Rule 60), Print_info Available_header,
                Print_info (Entry_name ''2'' ''Gemma 2 2B Q8_0''),
                Print_info (Entry_ram ''~2.3GB RAM''),
                Print_info (Entry_speed (2, ''Szybki'')),
                Print_info (Entry_quality (4, ''Bardzo dobra jakosc'')),
                Print_info Empty_line, Print_info Option_zero, Print_info (Rule 60),
                Prompted Choice_prompt,
                Print_error (Model_missing ''/home/user/models/Meta-Llama-3.1-8B-Instruct-Q4_K_M.gguf''),
                Print_error Download_first,
                Prompted Choice_prompt, Print_error Invalid_choice,
                Prompted Choice_prompt]\<rparr>)"
  by (simp add: ask_for_model_choice_def available_only_gemma2 Let_def print_mk fold_print_info
      model_choice_loop_Cons model_choice_loop_Nil choice_errors_def strip_def isspace_def)
    (simp add: models_def home_dir_def only_gemma2_def downloaded_later_def)

text \<open>
  C8, amended. In the choice loop, with the available entries being the catalog entries
  whose file existed when the function was called, take a line \<open>x\<close> whose choice is
  neither \<open>0\<close> nor available, followed by lines \<open>ls\<close> that are all such. If the
  choice of \<open>x\<close> is a key of the catalog and the file of its entry is still missing
  when the choice is read, the console shows the prompt, the error naming the path of
  that entry and the advice to download it; if the file has appeared in the meantime,
  or the choice is not a key of the catalog, it shows the prompt and the invalid-choice
  error. In each case the loop then reads on, and on these lines it returns no
  selection: it ends with \<open>EOFError\<close> when the input does, having shown exactly the
  prompts and errors of the lines and one last prompt. A value is returned only at a
  line whose choice is \<open>0\<close> or available, after the prompts and errors of the lines
  before it.
\<close>

theorem model_choice_rejections:
  "(let ms = models expanduser; available = available_models exists ms
    in (map_of ms (strip x) = Some m \<and> map_of available (strip x) = None
          \<and> \<not> exists_at n (entry_path m)
          \<and> (\<forall>y\<in>set ls. strip y \<noteq> ''0'' \<and> map_of available (strip y) = None) \<longrightarrow>
        model_choice_loop exists_at n ms available \<lparr>stdin = x # ls, shown = out\<rparr> =
          (Raise EOFError, \<lparr>stdin = [],
             shown = out @ [Prompted Choice_prompt, Print_error (Model_missing (entry_path m)),
                            Print_error Download_first]
                     @ choice_rounds exists_at (Suc n) ms ls @ [Prompted Choice_prompt]\<rparr>))
     \<and> (map_of ms (strip x) = Some m \<and> map_of available (strip x) = None
          \<and> exists_at n (entry_path m)
          \<and> (\<forall>y\<in>set ls. strip y \<noteq> ''0'' \<and> map_of available (strip y) = None) \<longrightarrow>
        model_choice_loop exists_at n ms available \<lparr>stdin = x # ls, shown = out\<rparr> =
          (Raise EOFError, \<lparr>stdin = [],
             shown = out @ [Prompted Choice_prompt, Print_error Invalid_choice]
                     @ choice_rounds exists_at (Suc n) ms ls @ [Prompted Choice_prompt]\<rparr>))
     \<and> (map_of ms (strip x) = None \<and> strip x \<noteq> ''0''
          \<and> (\<forall>y\<in>set ls. strip y \<noteq> ''0'' \<and> map_of available (strip y) = None) \<longrightarrow>
        model_choice_loop exists_at n ms available \<lparr>stdin = x # ls, shown = out\<rparr> =
          (Raise EOFError, \<lparr>stdin = [],
             shown = out @ [Prompted Choice_prompt, Print_error Invalid_choice]
                     @ choice_rounds exists_at (Suc n) ms ls @ [Prompted Choice_prompt]\<rparr>))
     \<and> ((\<forall>y\<in>set pre. strip y \<noteq> ''0'' \<and> map_of available (strip y) = None)
          \<and> strip l = ''0'' \<longrightarrow>
        model_choice_loop exists_at n ms available \<lparr>stdin = pre @ l # rest, shown = out\<rparr> =
          (Return None, \<lparr>stdin = rest,
             shown = out @ choice_rounds exists_at n ms pre
                     @ [Prompted Choice_prompt, Print_info Using_env_model]\<rparr>))
     \<and> ((\<forall>y\<in>set pre. strip y \<noteq> ''0'' \<and> map_of available (strip y) = None)
          \<and> strip l \<noteq> ''0'' \<and> map_of available (strip l) = Some selected \<longrightarrow>
        model_choice_loop exists_at n ms available \<lparr>stdin = pre @ l # rest, shown = out\<rparr> =
          (Return (Some (entry_path selected, entry_name selected)), \<lparr>stdin = rest,
             shown = out @ choice_rounds exists_at n ms pre
                     @ [Prompted Choice_prompt, Print_info (Selected (entry_name selected))]\<rparr>)))"
proof -
  define ms where "ms = models expanduser"
  define available where "available = available_models exists ms"
  have zero: "strip x \<noteq> ''0''" if "map_of ms (strip x) = Some m"
    using that zero_not_in_catalog [of expanduser] by (auto simp add: ms_def)
  have missing: "model_choice_loop exists_at n ms available \<lparr>stdin = x # ls, shown = out\<rparr> =
          (Raise EOFError, \<lparr>stdin = [],
             shown = out @ [Prompted Choice_prompt, Print_error (Model_missing (entry_path m)),
                            Print_error Download_first]
                     @ choice_rounds exists_at (Suc n) ms ls @ [Prompted Choice_prompt]\<rparr>)"
    if "map_of ms (strip x) = Some m" "map_of available (strip x) = None"
      "\<not> exists_at n (entry_path m)"
      "\<forall>y\<in>set ls. strip y \<noteq> ''0'' \<and> map_of available (strip y) = None"
  proof -
    have "\<forall>y\<in>set (x # ls). strip y \<noteq> ''0'' \<and> map_of available (strip y) = None"
      using that zero by simp
    from model_choice_loop_never [OF this, where exists_at = exists_at and n = n and ms = ms and out = out] that(1,3) show ?thesis
      by (simp add: choice_errors_def)
  qed
  have present: "model_choice_loop exists_at n ms available \<lparr>stdin = x # ls, shown = out\<rparr> =
          (Raise EOFError, \<lparr>stdin = [],
             shown = out @ [Prompted Choice_prompt, Print_error Invalid_choice]
                     @ choice_rounds exists_at (Suc n) ms ls @ [Prompted Choice_prompt]\<rparr>)"
    if "map_of ms (strip x) = Some m" "map_of available (strip x) = None"
      "exists_at n (entry_path m)"
      "\<forall>y\<in>set ls. strip y \<noteq> ''0'' \<and> map_of available (strip y) = None"
  proof -
    have "\<forall>y\<in>set (x # ls). strip y \<noteq> ''0'' \<and> map_of available (strip y) = None"
      using that zero by simp
    from model_choice_loop_never [OF this, where exists_at = exists_at and n = n and ms = ms and out = out] that(1,3) show ?thesis
      by (simp add: choice_errors_def)
  qed
  have outside: "model_choice_loop exists_at n ms available \<lparr>stdin = x # ls, shown = out\<rparr> =
          (Raise EOFError, \<lparr>stdin = [],
             shown = out @ [Prompted Choice_prompt, Print_error Invalid_choice]
                     @ choice_rounds exists_at (Suc n) ms ls @ [Prompted Choice_prompt]\<rparr>)"
    if "map_of ms (strip x) = None" "strip x \<noteq> ''0''"
      "\<forall>y\<in>set ls. strip y \<noteq> ''0'' \<and> map_of available (strip y) = None"
  proof -
    have "map_of available (strip x) = None"
      using that(1) unfolding available_def available_models_def
      by (metis (no_types, lifting) map_of_eq_None_iff filter_is_subset image_mono subsetD)
    then have "\<forall>y\<in>set (x # ls). strip y \<noteq> ''0'' \<and> map_of available (strip y) = None"
      using that by simp
    from model_choice_loop_never [OF this, where exists_at = exists_at and n = n and ms = ms and out = out] that(1) show ?thesis
      by (simp add: choice_errors_def)
  qed
  have default: "model_choice_loop exists_at n ms available \<lparr>stdin = pre @ l # rest, shown = out\<rparr> =
          (Return None, \<lparr>stdin = rest,
             shown = out @ choice_rounds exists_at n ms pre
                     @ [Prompted Choice_prompt, Print_info Using_env_model]\<rparr>)"
    if "\<forall>y\<in>set pre. strip y \<noteq> ''0'' \<and> map_of available (strip y) = None" "strip l = ''0''"
    using that(2) by (simp add: model_choice_loop_first [OF that(1)] model_choice_loop_Cons)
  have chosen: "model_choice_loop exists_at n ms available \<lparr>stdin = pre @ l # rest, shown = out\<rparr> =
          (Return (Some (entry_path selected, entry_name selected)), \<lparr>stdin = rest,
             shown = out @ choice_rounds exists_at n ms pre
                     @ [Prompted Choice_prompt, Print_info (Selected (entry_name selected))]\<rparr>)"
    if "\<forall>y\<in>set pre. strip y \<noteq> ''0'' \<and> map_of available (strip y) = None"
      "strip l \<noteq> ''0''" "map_of available (strip l) = Some selected"
    using that(2,3) by (simp add: model_choice_loop_first [OF that(1)] model_choice_loop_Cons)
  from missing present outside default chosen show ?thesis
    unfolding Let_def ms_def [symmetric] available_def [symmetric] by blast
qed

theorem model_choice_rejections_witness:
  "model_choice_loop downloaded_later 0 (models home_dir)
       (available_models only_gemma2 (models home_dir))
       \<lparr>stdin = [''3'', ''7''], shown = []\<rparr> =
     (Raise EOFError,
      \<lparr>stdin = [],
       shown = [Prompted Choice_prompt,
                Print_error (Model_missing ''/home/user/models/Meta-Llama-3.1-8B-Instruct-Q4_K_M.gguf''),
                Print_error Download_first,
                Prompted Choice_prompt, Print_error Invalid_choice,
                Prompted Choice_prompt]\<rparr>)
   \<and> model_choice_loop downloaded_later 1 (models home_dir)
       (available_models only_gemma2 (models home_dir))
       \<lparr>stdin = [''3''], shown = []\<rparr> =
     (Raise EOFError,
      \<lparr>stdin = [],
       shown = [Prompted Choice_prompt, Print_error Invalid_choice, Prompted Choice_prompt]\<rparr>)
   \<and> model_choice_loop downloaded_later 0 (models home_dir)
       (available_models only_gemma2 (models home_dir))
       \<lparr>stdin = [''7''], shown = []\<rparr> =
     (Raise EOFError,
      \<lparr>stdin = [],
       shown = [Prompted Choice_prompt, Print_error Invalid_choice, Prompted Choice_prompt]\<rparr>)
   \<and> model_choice_loop downloaded_later 0 (models home_dir)
       (available_models only_gemma2 (models home_dir))
       \<lparr>stdin = [''7'', ''0'', ''2''], shown = []\<rparr> =
     (Return None,
      \<lparr>stdin = [''2''],
       shown = [Prompted Choice_prompt, Print_error Invalid_choice,
                Prompted Choice_prompt, Print_info Using_env_model]\<rparr>)
   \<and> model_choice_loop downloaded_later 0 (models home_dir)
       (available_models only_gemma2 (models home_dir))
       \<lparr>stdin = [''3'', ''3'', '' 2''], shown = []\<rparr> =
     (Return (Some (''/home/user/models/gemma-2-2b-it-Q8_0.gguf'', ''Gemma 2 2B Q8_0'')),
      \<lparr>stdin = [],
       shown = [Prompted Choice_prompt,
                Print_error (Model_missing ''/home/user/models/Meta-Llama-3.1-8B-Instruct-Q4_K_M.gguf''),
                Print_error Download_first,
                Prompted Choice_prompt, Print_error Invalid_choice,
                Prompted Choice_prompt, Print_info (Selected ''Gemma 2 2B Q8_0'')]\<rparr>)"
  using model_choice_rejections [where expanduser = home_dir and exists = only_gemma2
      and exists_at = downloaded_later and n = 0 and x = "''3''" and ls = "[''7'']"
      and m = "snd (models home_dir ! 2)" and out = "[]"
      and pre = "[''7'']" and l = "''0''" and rest = "[''2'']"
      and selected = "snd (models home_dir ! 1)"]
    model_choice_rejections [where expanduser = home_dir and exists = only_gemma2
      and exists_at = downloaded_later and n = 1 and x = "''3''" and ls = "[]"
      and m = "snd (models home_dir ! 2)" and out = "[]"
      and pre = "[]" and l = "''0''" and rest = "[]"
      and selected = "snd (models home_dir ! 1)"]
    model_choice_rejections [where expanduser = home_dir and exists = only_gemma2
      and exists_at = downloaded_later and n = 0 and x = "''7''" and ls = "[]"
      and m = "snd (models home_dir ! 2)" and out = "[]"
      and pre = "[''3'', ''3'']" and l = "'' 2''" and rest = "[]"
      and selected = "snd (models home_dir ! 1)"]
  by (simp add: available_only_gemma2 model_choice_loop_Cons model_choice_loop_Nil choice_errors_def
      strip_def isspace_def print_mk Let_def)
    (simp add: models_def home_dir_def only_gemma2_def downloaded_later_def)

text \<open>
  C9. When the current temperature lies in 0.0 to 2.0, the current top\_p in 0.0 to
  1.0 and the current top\_k is at least 0, every value that
  \<open>ask_for_generation_params\<close> returns, on whatever console and with whatever
  \<open>float\<close> and \<open>int\<close>, has its temperature in 0.0 to 2.0, its top\_p in 0.0 to
  1.0 and its top\_k at least 0.
\<close>

theorem generation_params_in_range:
  assumes "fle (Finite 0) current_temp" and "fle current_temp (Finite 2)"
    and "fle (Finite 0) current_top_p" and "fle current_top_p (Finite 1)"
    and "0 \<le> current_top_k"
    and "ask_for_generation_params float_of int_of current_temp current_top_p current_top_k c
           = (Return r, c')"
  shows "fle (Finite 0) (temperature r) \<and> fle (temperature r) (Finite 2)
     \<and> fle (Finite 0) (top_p r) \<and> fle (top_p r) (Finite 1) \<and> 0 \<le> top_k r"
  using assms(6)
  unfolding ask_for_generation_params_def Let_def
  using assms(1-5)
  by (auto split: prod.splits outcome.splits if_splits dest!: ask_float_range ask_int_range)

theorem generation_params_in_range_witness:
  "fst (ask_for_generation_params float_sample int_sample (Finite 0.7) (Finite 0.9) 40 sample_run)
     = Return \<lparr>temperature = Finite 1.5, top_p = Finite 0.9, top_k = 5\<rparr>
   \<and> fle (Finite 0) (Finite 1.5) \<and> fle (Finite 1.5) (Finite 2)
   \<and> fle (Finite 0) (Finite 0.9) \<and> fle (Finite 0.9) (Finite 1) \<and> (0::int) \<le> 5"
proof -
  have run: "ask_for_generation_params float_sample int_sample (Finite 0.7) (Finite 0.9) 40 sample_run
      = (Return \<lparr>temperature = Finite 1.5, top_p = Finite 0.9, top_k = 5\<rparr>,
         snd (ask_for_generation_params float_sample int_sample (Finite 0.7) (Finite 0.9) 40 sample_run))"
    using sample_run_result by (metis prod.collapse)
  have "fle (Finite 0) (Finite 0.7)" "fle (Finite 0.7) (Finite 2)"
    "fle (Finite 0) (Finite 0.9)" "fle (Finite 0.9) (Finite 1)" "(0::int) \<le> 40"
    by simp_all
  from generation_params_in_range [OF this run] sample_run_result show ?thesis
    by simp
qed

text \<open>
  C10. Whitespace around a line is not seen by the three prompts: with whitespace
  \<open>ws1\<close> before and \<open>ws2\<close> after a text \<open>s\<close>, each prompt does exactly what
  it does on \<open>s\<close> alone. So a line of whitespace only returns the default; an answer
  token in any letter case, padded, returns true or false; and a padded number that is
  accepted bare is accepted with the same value.
\<close>

theorem surrounding_whitespace:
  assumes "\<forall>c\<in>set ws1. isspace c" and "\<forall>c\<in>set ws2. isspace c"
  shows "ask_yes_no q d \<lparr>stdin = (ws1 @ s @ ws2) # ls, shown = out\<rparr>
           = ask_yes_no q d \<lparr>stdin = s # ls, shown = out\<rparr>
     \<and> ask_float float_of q df min_val max_val \<lparr>stdin = (ws1 @ s @ ws2) # ls, shown = out\<rparr>
           = ask_float float_of q df min_val max_val \<lparr>stdin = s # ls, shown = out\<rparr>
     \<and> ask_int int_of q dk min_k \<lparr>stdin = (ws1 @ s @ ws2) # ls, shown = out\<rparr>
           = ask_int int_of q dk min_k \<lparr>stdin = s # ls, shown = out\<rparr>
     \<and> ask_yes_no q d \<lparr>stdin = ws1 # ls, shown = out\<rparr>
           = (Return d, \<lparr>stdin = ls, shown = out @ [Prompted (yes_no_prompt q d)]\<rparr>)
     \<and> ask_float float_of q df min_val max_val \<lparr>stdin = ws1 # ls, shown = out\<rparr>
           = (Return df, \<lparr>stdin = ls, shown = out @ [Prompted (Float_prompt q df)]\<rparr>)
     \<and> ask_int int_of q dk min_k \<lparr>stdin = ws1 # ls, shown = out\<rparr>
           = (Return dk, \<lparr>stdin = ls, shown = out @ [Prompted (Int_prompt q dk)]\<rparr>)
     \<and> (lower s \<in> set [''t'', ''tak'', ''y'', ''yes''] \<longrightarrow>
          ask_yes_no q d \<lparr>stdin = (ws1 @ s @ ws2) # ls, shown = out\<rparr>
            = (Return True, \<lparr>stdin = ls, shown = out @ [Prompted (yes_no_prompt q d)]\<rparr>))
     \<and> (lower s \<in> set [''n'', ''nie'', ''no''] \<longrightarrow>
          ask_yes_no q d \<lparr>stdin = (ws1 @ s @ ws2) # ls, shown = out\<rparr>
            = (Return False, \<lparr>stdin = ls, shown = out @ [Prompted (yes_no_prompt q d)]\<rparr>))
     \<and> (strip s \<noteq> [] \<and> float_in_range float_of min_val max_val s = Some v \<longrightarrow>
          ask_float float_of q df min_val max_val \<lparr>stdin = (ws1 @ s @ ws2) # ls, shown = out\<rparr>
            = (Return v, \<lparr>stdin = ls, shown = out @ [Prompted (Float_prompt q df)]\<rparr>))
     \<and> (strip s \<noteq> [] \<and> int_in_range int_of min_k s = Some k \<longrightarrow>
          ask_int int_of q dk min_k \<lparr>stdin = (ws1 @ s @ ws2) # ls, shown = out\<rparr>
            = (Return k, \<lparr>stdin = ls, shown = out @ [Prompted (Int_prompt q dk)]\<rparr>))"
proof -
  note pad = strip_append_space [OF assms, of s]
  note blank = strip_spaces [OF assms(1)]
  have yes: "lower (strip s) = lower s" if "lower s \<in> set [''t'', ''tak'', ''y'', ''yes'']"
    using that by (intro lower_token_strip) auto
  have no: "lower (strip s) = lower s" if "lower s \<in> set [''n'', ''nie'', ''no'']"
    using that by (intro lower_token_strip) auto
  have fr: "float_in_range float_of min_val max_val (ws1 @ s @ ws2) = float_in_range float_of min_val max_val s"
    and fe: "float_error float_of min_val max_val (ws1 @ s @ ws2) = float_error float_of min_val max_val s"
    and ir: "int_in_range int_of min_k (ws1 @ s @ ws2) = int_in_range int_of min_k s"
    and ie: "int_error int_of min_k (ws1 @ s @ ws2) = int_error int_of min_k s"
    by (simp_all add: float_in_range_def float_error_def int_in_range_def int_error_def pad)
  have 1: "ask_yes_no q d \<lparr>stdin = (ws1 @ s @ ws2) # ls, shown = out\<rparr>
           = ask_yes_no q d \<lparr>stdin = s # ls, shown = out\<rparr>"
    by (simp add: ask_yes_no_Cons yes_no_answer_def pad)
  have 2: "ask_float float_of q df min_val max_val \<lparr>stdin = (ws1 @ s @ ws2) # ls, shown = out\<rparr>
           = ask_float float_of q df min_val max_val \<lparr>stdin = s # ls, shown = out\<rparr>"
    by (simp add: ask_float_Cons fr fe pad split: option.splits)
  have 3: "ask_int int_of q dk min_k \<lparr>stdin = (ws1 @ s @ ws2) # ls, shown = out\<rparr>
           = ask_int int_of q dk min_k \<lparr>stdin = s # ls, shown = out\<rparr>"
    by (simp add: ask_int_Cons ir ie pad split: option.splits)
  have 4: "ask_yes_no q d \<lparr>stdin = ws1 # ls, shown = out\<rparr>
           = (Return d, \<lparr>stdin = ls, shown = out @ [Prompted (yes_no_prompt q d)]\<rparr>)"
    by (simp add: ask_yes_no_Cons yes_no_answer_def blank lower_def)
  have 5: "ask_float float_of q df min_val max_val \<lparr>stdin = ws1 # ls, shown = out\<rparr>
           = (Return df, \<lparr>stdin = ls, shown = out @ [Prompted (Float_prompt q df)]\<rparr>)"
    by (simp add: ask_float_Cons blank)
  have 6: "ask_int int_of q dk min_k \<lparr>stdin = ws1 # ls, shown = out\<rparr>
           = (Return dk, \<lparr>stdin = ls, shown = out @ [Prompted (Int_prompt q dk)]\<rparr>)"
    by (simp add: ask_int_Cons blank)
  have 7: "ask_yes_no q d \<lparr>stdin = (ws1 @ s @ ws2) # ls, shown = out\<rparr>
            = (Return True, \<lparr>stdin = ls, shown = out @ [Prompted (yes_no_prompt q d)]\<rparr>)"
    if "lower s \<in> set [''t'', ''tak'', ''y'', ''yes'']"
    unfolding 1 using that yes [OF that] by (auto simp add: ask_yes_no_Cons yes_no_answer_def)
  have 8: "ask_yes_no q d \<lparr>stdin = (ws1 @ s @ ws2) # ls, shown = out\<rparr>
            = (Return False, \<lparr>stdin = ls, shown = out @ [Prompted (yes_no_prompt q d)]\<rparr>)"
    if "lower s \<in> set [''n'', ''nie'', ''no'']"
    unfolding 1 using that no [OF that] by (auto simp add: ask_yes_no_Cons yes_no_answer_def)
  have 9: "ask_float float_of q df min_val max_val \<lparr>stdin = (ws1 @ s @ ws2) # ls, shown = out\<rparr>
            = (Return v, \<lparr>stdin = ls, shown = out @ [Prompted (Float_prompt q df)]\<rparr>)"
    if "strip s \<noteq> [] \<and> float_in_range float_of min_val max_val s = Some v"
    unfolding 2 using that by (simp add: ask_float_Cons)
  have 10: "ask_int int_of q dk min_k \<lparr>stdin = (ws1 @ s @ ws2) # ls, shown = out\<rparr>
            = (Return k, \<lparr>stdin = ls, shown = out @ [Prompted (Int_prompt q dk)]\<rparr>)"
    if "strip s \<noteq> [] \<and> int_in_range int_of min_k s = Some k"
    unfolding 3 using that by (simp add: ask_int_Cons)
  from 1 2 3 4 5 6 7 8 9 10 show ?thesis by blast
qed

theorem surrounding_whitespace_witness:
  "ask_yes_no Q_configure False \<lparr>stdin = ([CHR '' '', CHR 0x09] @ ''yEs'' @ [CHR 0xA0, CHR '' '']) # [], shown = []\<rparr>
     = (Return True, \<lparr>stdin = [], shown = [Prompted (Yes_no_prompt Q_configure ''t/N'')]\<rparr>)
   \<and> ask_yes_no Q_configure False \<lparr>stdin = ([CHR '' '', CHR 0x09] @ ''NIE'' @ [CHR 0xA0, CHR '' '']) # [], shown = []\<rparr>
     = (Return False, \<lparr>stdin = [], shown = [Prompted (Yes_no_prompt Q_configure ''t/N'')]\<rparr>)
   \<and> ask_yes_no Q_configure True \<lparr>stdin = [CHR '' '', CHR 0x09] # [], shown = []\<rparr>
     = (Return True, \<lparr>stdin = [], shown = [Prompted (Yes_no_prompt Q_configure ''T/n'')]\<rparr>)
   \<and> ask_float float_sample Q_top_p (Finite 0.9) (Finite 0) (Finite 2)
        \<lparr>stdin = ([CHR '' '', CHR 0x09] @ ''1.5'' @ [CHR 0xA0, CHR '' '']) # [], shown = []\<rparr>
     = (Return (Finite 1.5), \<lparr>stdin = [], shown = [Prompted (Float_prompt Q_top_p (Finite 0.9))]\<rparr>)
   \<and> ask_float float_sample Q_top_p (Finite 0.9) (Finite 0) (Finite 2)
        \<lparr>stdin = [CHR '' '', CHR 0x09] # [], shown = []\<rparr>
     = (Return (Finite 0.9), \<lparr>stdin = [], shown = [Prompted (Float_prompt Q_top_p (Finite 0.9))]\<rparr>)
   \<and> ask_int int_sample Q_top_k 40 0
        \<lparr>stdin = ([CHR '' '', CHR 0x09] @ ''5'' @ [CHR 0xA0, CHR '' '']) # [], shown = []\<rparr>
     = (Return 5, \<lparr>stdin = [], shown = [Prompted (Int_prompt Q_top_k 40)]\<rparr>)
   \<and> ask_int int_sample Q_top_k 40 0 \<lparr>stdin = [CHR '' '', CHR 0x09] # [], shown = []\<rparr>
     = (Return 40, \<lparr>stdin = [], shown = [Prompted (Int_prompt Q_top_k 40)]\<rparr>)"
proof -
  have ws: "\<forall>c\<in>set [CHR '' '', CHR 0x09]. isspace c" "\<forall>c\<in>set [CHR 0xA0, CHR '' '']. isspace c"
    by (simp_all add: isspace_def)
  have tok: "lower ''yEs'' \<in> set [''t'', ''tak'', ''y'', ''yes'']"
    "lower ''NIE'' \<in> set [''n'', ''nie'', ''no'']"
    by (simp_all add: lower_def lower_char_def isupper_def)
  have num: "strip ''1.5'' \<noteq> [] \<and> float_in_range float_sample (Finite 0) (Finite 2) ''1.5'' = Some (Finite 1.5)"
    "strip ''5'' \<noteq> [] \<and> int_in_range int_sample 0 ''5'' = Some 5"
    by (simp_all add: line_eval)
  show ?thesis
    using surrounding_whitespace [OF ws, where s = "''yEs''" and q = Q_configure and d = False
        and float_of = float_sample and df = "Finite 0.9" and min_val = "Finite 0"
        and max_val = "Finite 2" and v = "Finite 1.5" and int_of = int_sample and dk = 40
        and min_k = 0 and k = 5 and ls = "[]" and out = "[]"]
      surrounding_whitespace [OF ws, where s = "''NIE''" and q = Q_configure and d = False
        and float_of = float_sample and df = "Finite 0.9" and min_val = "Finite 0"
        and max_val = "Finite 2" and v = "Finite 1.5" and int_of = int_sample and dk = 40
        and min_k = 0 and k = 5 and ls = "[]" and out = "[]"]
      surrounding_whitespace [OF ws, where s = "''yEs''" and q = Q_configure and d = True
        and float_of = float_sample and df = "Finite 0.9" and min_val = "Finite 0"
        and max_val = "Finite 2" and v = "Finite 1.5" and int_of = int_sample and dk = 40
        and min_k = 0 and k = 5 and ls = "[]" and out = "[]"]
      surrounding_whitespace [OF ws, where s = "''1.5''" and q = Q_top_p and d = False
        and float_of = float_sample and df = "Finite 0.9" and min_val = "Finite 0"
        and max_val = "Finite 2" and v = "Finite 1.5" and int_of = int_sample and dk = 40
        and min_k = 0 and k = 5 and ls = "[]" and out = "[]"]
      surrounding_whitespace [OF ws, where s = "''5''" and q = Q_top_k and d = False
        and float_of = float_sample and df = "Finite 0.9" and min_val = "Finite 0"
        and max_val = "Finite 2" and v = "Finite 1.5" and int_of = int_sample and dk = 40
        and min_k = 0 and k = 5 and ls = "[]" and out = "[]"]
      tok num
    by (simp add: line_eval)
qed

end
